theory Spec2Isabelle
  imports Complex_Main
begin

section \<open>Conventions of the embedding\<close>

text \<open>
  The TypeScript sources are embedded function by function.  A \<open>bigint\<close> is an \<open>int\<close>;
  a millisecond time stamp is an \<open>int\<close>.  A \<open>number\<close> that is an input or a
  configuration value is finite and is the \<open>real\<close> it denotes.  The arithmetic of
  \<open>calculateKellyCriterion\<close> and of the whale detector is the arithmetic of doubles: every
  result is rounded, and it can be an infinity or \<open>NaN\<close>.  The other embedded functions
  compare numbers and scale them by constants; there the products and quotients are taken
  exactly.  A method of a class takes the object as an argument and returns the updated
  object next to its result.  A \<open>throw\<close> is the left injection of a sum.  Every reading
  of \<open>Date.now()\<close> inside one call is the argument \<open>now\<close> of that call.
\<close>

datatype error = Error string | TypeError string | RangeError string

text \<open>Division of two \<open>bigint\<close>s truncates toward zero.\<close>

definition bigint_div :: "int \<Rightarrow> int \<Rightarrow> int" where
  "bigint_div a b = sgn a * sgn b * (\<bar>a\<bar> div \<bar>b\<bar>)"

text \<open>Truthiness of an optional \<open>number\<close>: \<open>undefined\<close> and \<open>0\<close> are falsy.\<close>

definition truthy_number :: "real option \<Rightarrow> bool" where
  "truthy_number x = (case x of None \<Rightarrow> False | Some v \<Rightarrow> v \<noteq> 0)"

section \<open>IEEE 754 double precision\<close>

text \<open>
  A JavaScript \<open>number\<close> is a double.  A finite double is represented by the real number
  it denotes; the type \<open>number\<close> adds the two infinities and \<open>NaN\<close>.  The sign of zero is not
  represented: no divisor in the embedded code can be a negative zero.

  \<open>nearest x\<close> is \<open>x\<close> rounded to the nearest point of the binary64 grid, ties to the even
  significand: the grid around \<open>x\<close> has spacing \<open>ulp x\<close>, which is \<open>2\<close> to the power of the
  binary exponent of \<open>x\<close> (at least \<open>-1022\<close>, where the subnormal numbers start) minus
  \<open>52\<close>.  A decimal literal \<open>c\<close> of the source denotes \<open>nearest c\<close>.  \<open>to_double\<close> is the
  rounding of an arithmetic result, which overflows to an infinity from \<open>2 ^ 1024\<close> on.
\<close>

datatype number = Finite real | PosInfinity | NegInfinity | NaN

definition round_half_even :: "real \<Rightarrow> int" where
  "round_half_even x =
     (if x - of_int \<lfloor>x\<rfloor> < 1 / 2 then \<lfloor>x\<rfloor>
      else if x - of_int \<lfloor>x\<rfloor> > 1 / 2 then \<lfloor>x\<rfloor> + 1
      else if even \<lfloor>x\<rfloor> then \<lfloor>x\<rfloor> else \<lfloor>x\<rfloor> + 1)"

definition binade :: "real \<Rightarrow> int" where
  "binade x = max \<lfloor>log 2 \<bar>x\<bar>\<rfloor> (- 1022)"

definition ulp :: "real \<Rightarrow> real" where
  "ulp x = 2 powr (of_int (binade x) - 52)"

definition nearest :: "real \<Rightarrow> real" where
  "nearest x = (if x = 0 then 0 else of_int (round_half_even (x / ulp x)) * ulp x)"

definition to_double :: "real \<Rightarrow> number" where
  "to_double x =
     (if \<bar>nearest x\<bar> \<ge> 2 ^ 1024 then (if x > 0 then PosInfinity else NegInfinity)
      else Finite (nearest x))"

text \<open>\<open>Number(b)\<close> of a \<open>bigint\<close>.\<close>

definition Number_of_bigint :: "int \<Rightarrow> number" where
  "Number_of_bigint b = to_double (of_int b)"

definition number_sign :: "number \<Rightarrow> int" where
  "number_sign a =
     (case a of
        Finite x \<Rightarrow> (if x > 0 then 1 else if x < 0 then - 1 else 0)
      | PosInfinity \<Rightarrow> 1
      | NegInfinity \<Rightarrow> - 1
      | NaN \<Rightarrow> 0)"

definition number_neg :: "number \<Rightarrow> number" where
  "number_neg a =
     (case a of
        Finite x \<Rightarrow> Finite (- x)
      | PosInfinity \<Rightarrow> NegInfinity
      | NegInfinity \<Rightarrow> PosInfinity
      | NaN \<Rightarrow> NaN)"

fun number_add :: "number \<Rightarrow> number \<Rightarrow> number" where
  "number_add NaN b = NaN"
| "number_add a NaN = NaN"
| "number_add (Finite a) (Finite b) = to_double (a + b)"
| "number_add PosInfinity NegInfinity = NaN"
| "number_add NegInfinity PosInfinity = NaN"
| "number_add PosInfinity b = PosInfinity"
| "number_add NegInfinity b = NegInfinity"
| "number_add (Finite a) b = b"

definition number_sub :: "number \<Rightarrow> number \<Rightarrow> number" where
  "number_sub a b = number_add a (number_neg b)"

fun number_mul :: "number \<Rightarrow> number \<Rightarrow> number" where
  "number_mul NaN b = NaN"
| "number_mul a NaN = NaN"
| "number_mul (Finite a) (Finite b) = to_double (a * b)"
| "number_mul a b =
     (if number_sign a * number_sign b = 0 then NaN
      else if number_sign a * number_sign b > 0 then PosInfinity else NegInfinity)"

fun number_div :: "number \<Rightarrow> number \<Rightarrow> number" where
  "number_div NaN b = NaN"
| "number_div a NaN = NaN"
| "number_div (Finite a) (Finite b) =
     (if b = 0 then (if a = 0 then NaN else if a > 0 then PosInfinity else NegInfinity)
      else to_double (a / b))"
| "number_div (Finite a) b = Finite 0"
| "number_div a (Finite b) =
     (if (number_sign a > 0) = (b \<ge> 0) then PosInfinity else NegInfinity)"
| "number_div a b = NaN"

text \<open>The comparisons \<open><=\<close> and \<open><\<close>; both are false when an operand is \<open>NaN\<close>.\<close>

fun number_le :: "number \<Rightarrow> number \<Rightarrow> bool" where
  "number_le NaN b = False"
| "number_le a NaN = False"
| "number_le (Finite a) (Finite b) = (a \<le> b)"
| "number_le NegInfinity b = True"
| "number_le a PosInfinity = True"
| "number_le a b = False"

definition number_lt :: "number \<Rightarrow> number \<Rightarrow> bool" where
  "number_lt a b = (number_le a b \<and> a \<noteq> b)"

fun Math_max :: "number \<Rightarrow> number \<Rightarrow> number" where
  "Math_max NaN b = NaN"
| "Math_max a NaN = NaN"
| "Math_max a b = (if number_le a b then b else a)"

fun Math_min :: "number \<Rightarrow> number \<Rightarrow> number" where
  "Math_min NaN b = NaN"
| "Math_min a NaN = NaN"
| "Math_min a b = (if number_le a b then a else b)"

definition Math_floor :: "number \<Rightarrow> number" where
  "Math_floor a = (case a of Finite x \<Rightarrow> Finite (of_int \<lfloor>x\<rfloor>) | other \<Rightarrow> other)"

text \<open>\<open>BigInt(a)\<close> throws a \<open>RangeError\<close> unless \<open>a\<close> is an integer.\<close>

definition BigInt_of_number :: "number \<Rightarrow> error + int" where
  "BigInt_of_number a =
     (case a of
        Finite x \<Rightarrow>
          if x = of_int \<lfloor>x\<rfloor> then Inr \<lfloor>x\<rfloor>
          else Inl (RangeError ''The number cannot be converted to a BigInt because it is not an integer'')
      | other \<Rightarrow>
          Inl (RangeError ''The number cannot be converted to a BigInt because it is not an integer''))"

section \<open>risk/position-sizing.ts\<close>

subsection \<open>calculateKellyCriterion\<close>

record PositionSizingParams =
  bankroll :: int
  winProbability :: real
  winLossRatio :: real
  kellyFraction :: "real option"
  maxPositionPercent :: "real option"

text \<open>The destructuring defaults \<open>kellyFraction = 0.25\<close> and \<open>maxPositionPercent = 0.1\<close>.\<close>

definition kellyFraction_of :: "PositionSizingParams \<Rightarrow> real" where
  "kellyFraction_of ps = (case kellyFraction ps of None \<Rightarrow> 0.25 | Some k \<Rightarrow> k)"

definition maxPositionPercent_of :: "PositionSizingParams \<Rightarrow> real" where
  "maxPositionPercent_of ps =
     (case maxPositionPercent ps of None \<Rightarrow> nearest 0.1 | Some m \<Rightarrow> m)"

definition calculateKellyCriterion :: "PositionSizingParams \<Rightarrow> error + int" where
  "calculateKellyCriterion ps =
     (if winProbability ps \<le> 0 \<or> winProbability ps \<ge> 1
      then Inl (Error ''Win probability must be between 0 and 1'')
      else if winLossRatio ps \<le> 0
      then Inl (Error ''Win/loss ratio must be positive'')
      else
        let lossProbability = number_sub (Finite 1) (Finite (winProbability ps));
            fullKelly =
              number_div
                (number_sub (number_mul (Finite (winLossRatio ps)) (Finite (winProbability ps)))
                   lossProbability)
                (Finite (winLossRatio ps));
            adjustedKelly =
              Math_max (Finite 0) (number_mul fullKelly (Finite (kellyFraction_of ps)));
            finalFraction = Math_min adjustedKelly (Finite (maxPositionPercent_of ps))
        in case BigInt_of_number (Math_floor (number_mul finalFraction (Finite 10000))) of
             Inl err \<Rightarrow> Inl err
           | Inr basisPoints \<Rightarrow> Inr (bigint_div (bankroll ps * basisPoints) 10000))"

subsection \<open>StopLossManager\<close>

record StopLossParams =
  entryPrice :: int
  stopLossPercent :: real
  takeProfitPercent :: "real option"
  trailingStopPercent :: "real option"

record StopLossManager =
  params :: StopLossParams
  highestPrice :: int
  lowestPrice :: int
  isActive :: bool

record ExitSignal =
  shouldExit :: bool
  reason :: "string option"

definition StopLossManager_new :: "StopLossParams \<Rightarrow> StopLossManager" where
  "StopLossManager_new p =
     \<lparr>params = p, highestPrice = entryPrice p, lowestPrice = entryPrice p, isActive = True\<rparr>"

definition calculateStopLossPrice :: "StopLossManager \<Rightarrow> int" where
  "calculateStopLossPrice m =
     (let drop = bigint_div (entryPrice (params m) * \<lfloor>stopLossPercent (params m) * 100\<rfloor>) 10000
      in entryPrice (params m) - drop)"

definition calculateTakeProfitPrice :: "StopLossManager \<Rightarrow> int" where
  "calculateTakeProfitPrice m =
     (if \<not> truthy_number (takeProfitPercent (params m)) then 0
      else
        let gain = bigint_div
              (entryPrice (params m) * \<lfloor>the (takeProfitPercent (params m)) * 100\<rfloor>) 10000
        in entryPrice (params m) + gain)"

definition calculateTrailingStopPrice :: "StopLossManager \<Rightarrow> int" where
  "calculateTrailingStopPrice m =
     (if \<not> truthy_number (trailingStopPercent (params m)) then 0
      else
        let drop = bigint_div
              (highestPrice m * \<lfloor>the (trailingStopPercent (params m)) * 100\<rfloor>) 10000
        in highestPrice m - drop)"

definition no_exit :: ExitSignal where
  "no_exit = \<lparr>shouldExit = False, reason = None\<rparr>"

definition exit_with :: "string \<Rightarrow> ExitSignal" where
  "exit_with r = \<lparr>shouldExit = True, reason = Some r\<rparr>"

definition updatePrice :: "StopLossManager \<Rightarrow> int \<Rightarrow> StopLossManager \<times> ExitSignal" where
  "updatePrice m currentPrice =
     (if \<not> isActive m then (m, no_exit)
      else
        let m1 = (if currentPrice > highestPrice m then m\<lparr>highestPrice := currentPrice\<rparr> else m);
            m2 = (if currentPrice < lowestPrice m1 then m1\<lparr>lowestPrice := currentPrice\<rparr> else m1)
        in
          if currentPrice \<le> calculateStopLossPrice m2 then (m2, exit_with ''STOP_LOSS'')
          else if truthy_number (takeProfitPercent (params m2))
                  \<and> currentPrice \<ge> calculateTakeProfitPrice m2
          then (m2, exit_with ''TAKE_PROFIT'')
          else if truthy_number (trailingStopPercent (params m2))
                  \<and> currentPrice \<le> calculateTrailingStopPrice m2
          then (m2, exit_with ''TRAILING_STOP'')
          else (m2, no_exit))"

definition deactivate :: "StopLossManager \<Rightarrow> StopLossManager" where
  "deactivate m = m\<lparr>isActive := False\<rparr>"

definition isPositionActive :: "StopLossManager \<Rightarrow> bool" where
  "isPositionActive m = isActive m"

text \<open>A sequence of \<open>updatePrice\<close> calls on one tracker, with the signal of each call.\<close>

fun updatePrices :: "StopLossManager \<Rightarrow> int list \<Rightarrow> StopLossManager \<times> ExitSignal list" where
  "updatePrices m [] = (m, [])"
| "updatePrices m (p # ps) =
     (let (m', r) = updatePrice m p; (m'', rs) = updatePrices m' ps in (m'', r # rs))"

text \<open>The trackers of the repository's test suite: entry 1000, stop 5%, take 15%,
  without and with a trailing stop of 10%.\<close>

definition tracker_plain :: StopLossManager where
  "tracker_plain = StopLossManager_new
     \<lparr>entryPrice = 1000, stopLossPercent = 0.05, takeProfitPercent = Some 0.15,
      trailingStopPercent = None\<rparr>"

definition tracker_trailing :: StopLossManager where
  "tracker_trailing = StopLossManager_new
     \<lparr>entryPrice = 1000, stopLossPercent = 0.05, takeProfitPercent = Some 0.15,
      trailingStopPercent = Some 0.10\<rparr>"

subsection \<open>PortfolioBalancer\<close>

text \<open>A \<open>Map<string, number>\<close> is an association list in insertion order.\<close>

record PortfolioBalancer =
  targetAllocations :: "(string \<times> real) list"
  rebalanceThreshold :: real
  maxSlippagePercent :: real

definition PortfolioBalancer_new ::
  "(string \<times> real) list \<Rightarrow> real option \<Rightarrow> real option \<Rightarrow> error + PortfolioBalancer" where
  "PortfolioBalancer_new allocations threshold slippage =
     (let total = foldl (\<lambda>a b. a + b) 0 (map snd allocations)
      in if \<bar>total - 1.0\<bar> > 0.01
         then Inl (Error ''Target allocations must sum to 1.0'')
         else Inr \<lparr>targetAllocations = allocations,
                   rebalanceThreshold = (case threshold of None \<Rightarrow> 0.05 | Some t \<Rightarrow> t),
                   maxSlippagePercent = (case slippage of None \<Rightarrow> 1.0 | Some s \<Rightarrow> s)\<rparr>)"

subsection \<open>DrawdownProtector\<close>

record DrawdownConfig =
  maxDailyDrawdownPercent :: real
  maxTotalDrawdownPercent :: real
  cooldownPeriodMs :: int
  pauseOnTrigger :: bool

record DrawdownState =
  peakValue :: int
  currentValue :: int
  dailyStartValue :: int
  lastReset :: int
  inCooldown :: bool
  cooldownEnd :: int
  triggeredCount :: int

record DrawdownProtector =
  dd_config :: DrawdownConfig
  dd_state :: DrawdownState

record DrawdownStatus =
  canTrade :: bool
  drawdownPercent :: real
  dailyDrawdownPercent :: real
  status :: string

definition DrawdownProtector_new :: "int \<Rightarrow> DrawdownConfig \<Rightarrow> int \<Rightarrow> DrawdownProtector" where
  "DrawdownProtector_new now config initialValue =
     \<lparr>dd_config = config,
      dd_state = \<lparr>peakValue = initialValue, currentValue = initialValue,
                  dailyStartValue = initialValue, lastReset = now, inCooldown = False,
                  cooldownEnd = 0, triggeredCount = 0\<rparr>\<rparr>"

definition calculateDrawdown :: "DrawdownState \<Rightarrow> real" where
  "calculateDrawdown s =
     (if peakValue s = 0 then 0
      else real_of_int (peakValue s - currentValue s) / real_of_int (peakValue s))"

definition calculateDailyDrawdown :: "DrawdownState \<Rightarrow> real" where
  "calculateDailyDrawdown s =
     (if dailyStartValue s = 0 then 0
      else real_of_int (dailyStartValue s - currentValue s) / real_of_int (dailyStartValue s))"

definition triggerCooldown :: "int \<Rightarrow> DrawdownConfig \<Rightarrow> DrawdownState \<Rightarrow> DrawdownState" where
  "triggerCooldown now c s =
     s\<lparr>inCooldown := True, cooldownEnd := now + cooldownPeriodMs c,
       triggeredCount := triggeredCount s + 1\<rparr>"

definition updateValue :: "int \<Rightarrow> DrawdownProtector \<Rightarrow> int \<Rightarrow> DrawdownProtector \<times> DrawdownStatus" where
  "updateValue now d v =
     (let c = dd_config d;
          s0 = (dd_state d)\<lparr>currentValue := v\<rparr>;
          s1 = (if v > peakValue s0 then s0\<lparr>peakValue := v\<rparr> else s0);
          s2 = (if now - lastReset s1 > 86400000
                then s1\<lparr>dailyStartValue := v, lastReset := now\<rparr> else s1)
      in
        if inCooldown s2 \<and> \<not> now \<ge> cooldownEnd s2
        then (d\<lparr>dd_state := s2\<rparr>,
              \<lparr>canTrade = False, drawdownPercent = calculateDrawdown s2,
               dailyDrawdownPercent = calculateDailyDrawdown s2, status = ''COOLDOWN''\<rparr>)
        else
          let s3 = (if inCooldown s2 then s2\<lparr>inCooldown := False\<rparr> else s2);
              dd = calculateDrawdown s3;
              daily = calculateDailyDrawdown s3
          in
            if dd \<ge> maxTotalDrawdownPercent c
            then (d\<lparr>dd_state := triggerCooldown now c s3\<rparr>,
                  \<lparr>canTrade = False, drawdownPercent = dd, dailyDrawdownPercent = daily,
                   status = ''CRITICAL''\<rparr>)
            else if daily \<ge> maxDailyDrawdownPercent c
            then (d\<lparr>dd_state := triggerCooldown now c s3\<rparr>,
                  \<lparr>canTrade = False, drawdownPercent = dd, dailyDrawdownPercent = daily,
                   status = ''CRITICAL''\<rparr>)
            else
              let warningThreshold = maxDailyDrawdownPercent c * 0.8;
                  st = (if daily > warningThreshold then ''WARNING'' else ''NORMAL'')
              in (d\<lparr>dd_state := s3\<rparr>,
                  \<lparr>canTrade = (\<not> pauseOnTrigger c \<or> st \<noteq> ''CRITICAL''),
                   drawdownPercent = dd, dailyDrawdownPercent = daily, status = st\<rparr>))"

definition getState :: "DrawdownProtector \<Rightarrow> DrawdownState" where
  "getState d = dd_state d"

definition resetPeak :: "DrawdownProtector \<Rightarrow> DrawdownProtector" where
  "resetPeak d = d\<lparr>dd_state := (dd_state d)\<lparr>peakValue := currentValue (dd_state d)\<rparr>\<rparr>"

text \<open>The public operations of a protector, and a sequence of them applied in order.\<close>

datatype drawdown_op = UpdateValue int int | GetState | ResetPeak

fun apply_drawdown_op :: "DrawdownProtector \<Rightarrow> drawdown_op \<Rightarrow> DrawdownProtector" where
  "apply_drawdown_op d (UpdateValue now v) = fst (updateValue now d v)"
| "apply_drawdown_op d GetState = d"
| "apply_drawdown_op d ResetPeak = resetPeak d"

fun run_drawdown_ops :: "DrawdownProtector \<Rightarrow> drawdown_op list \<Rightarrow> DrawdownProtector" where
  "run_drawdown_ops d [] = d"
| "run_drawdown_ops d (x # xs) = run_drawdown_ops (apply_drawdown_op d x) xs"

definition test_drawdown_config :: DrawdownConfig where
  "test_drawdown_config =
     \<lparr>maxDailyDrawdownPercent = 0.03, maxTotalDrawdownPercent = 0.10,
      cooldownPeriodMs = 3600000, pauseOnTrigger = True\<rparr>"

section \<open>Values handed to library functions\<close>

text \<open>
  The payload of an audit entry has the TypeScript type \<open>any\<close>; it is a JavaScript value.
  Object literals keep the order in which the source writes their keys.
\<close>

datatype jsval =
    JUndefined
  | JNull
  | JBool bool
  | JNum number
  | JBigInt int
  | JStr string
  | JArr "jsval list"
  | JObj "(string \<times> jsval) list"

text \<open>
  Functions of the JavaScript runtime and of the \<open>ethers\<close> package are parameters of the
  model: \<open>JSON.stringify\<close> (which may throw), \<open>ethers.keccak256\<close> after
  \<open>ethers.toUtf8Bytes\<close>, \<open>Number.prototype.toFixed\<close> and \<open>BigInt.prototype.toString\<close>.
\<close>

record Library =
  stringify :: "jsval \<Rightarrow> error + string"
  keccak256 :: "string \<Rightarrow> string"
  toFixed :: "number \<Rightarrow> nat \<Rightarrow> string"
  bigint_toString :: "int \<Rightarrow> string"

definition error_message :: "error \<Rightarrow> string" where
  "error_message e = (case e of Error m \<Rightarrow> m | TypeError m \<Rightarrow> m | RangeError m \<Rightarrow> m)"

section \<open>audit/audit-trail.ts\<close>

text \<open>\<open>AuditEntryBase\<close> is \<open>Omit<AuditEntry, 'hash' | 'signature'>\<close>.\<close>

record AuditEntryBase =
  entry_type :: string
  entry_agent :: string
  entry_data :: jsval
  entry_timestamp :: int

record AuditEntry = AuditEntryBase +
  entry_hash :: "string option"
  entry_signature :: "string option"

text \<open>
  The logger: \<open>wallet_signer\<close> is \<open>wallet.signMessage\<close> when a wallet exists;
  \<open>contract_logEntry\<close> tells, when a contract exists, whether submitting an entry to it
  succeeds.
\<close>

record AuditLogger =
  logger_mode :: string
  entries :: "AuditEntry list"
  wallet_signer :: "(string \<Rightarrow> string) option"
  contract_logEntry :: "(AuditEntry \<Rightarrow> bool) option"
  lastFlush :: int
  flushIntervalMs :: int
  merkleTree :: "string list"

definition canonical :: "'a AuditEntryBase_scheme \<Rightarrow> jsval" where
  "canonical e =
     JObj [(''type'', JStr (entry_type e)), (''agent'', JStr (entry_agent e)),
           (''data'', entry_data e),
           (''timestamp'', JNum (Finite (real_of_int (entry_timestamp e))))]"

definition generateHash :: "Library \<Rightarrow> 'a AuditEntryBase_scheme \<Rightarrow> error + string" where
  "generateHash L e =
     (case stringify L (canonical e) of
        Inl err \<Rightarrow> Inl err
      | Inr serialized \<Rightarrow> Inr (keccak256 L serialized))"

definition shouldFlush :: "int \<Rightarrow> AuditLogger \<Rightarrow> bool" where
  "shouldFlush now a = (now - lastFlush a > flushIntervalMs a)"

definition truthy_string :: "string option \<Rightarrow> bool" where
  "truthy_string x = (case x of None \<Rightarrow> False | Some v \<Rightarrow> v \<noteq> [])"

definition flush :: "int \<Rightarrow> AuditLogger \<Rightarrow> AuditLogger" where
  "flush now a =
     (case contract_logEntry a of
        None \<Rightarrow> a
      | Some submit \<Rightarrow>
          if logger_mode a = ''local'' then a
          else
            let unflushed = filter (\<lambda>e. \<not> truthy_string (entry_signature e)) (entries a)
            in if list_all submit (take 10 unflushed) then a\<lparr>lastFlush := now\<rparr> else a)"

definition log :: "Library \<Rightarrow> int \<Rightarrow> AuditLogger \<Rightarrow> AuditEntryBase
                     \<Rightarrow> AuditLogger \<times> (error + AuditEntry)" where
  "log L now a entry =
     (let fullEntry = AuditEntryBase.extend
            (entry\<lparr>entry_timestamp :=
                      (if entry_timestamp entry \<noteq> 0 then entry_timestamp entry else now)\<rparr>)
            (AuditEntry.fields None None)
      in case generateHash L fullEntry of
           Inl err \<Rightarrow> (a, Inl err)
         | Inr h \<Rightarrow>
             let hashed = fullEntry\<lparr>entry_hash := Some h\<rparr>;
                 signed = (case wallet_signer a of
                             None \<Rightarrow> hashed
                           | Some sign \<Rightarrow> hashed\<lparr>entry_signature := Some (sign h)\<rparr>);
                 a1 = a\<lparr>entries := entries a @ [signed], merkleTree := merkleTree a @ [h]\<rparr>;
                 a2 = (if shouldFlush now a1 then flush now a1 else a1)
             in (a2, Inr signed))"

definition verifyEntry :: "Library \<Rightarrow> AuditEntry \<Rightarrow> error + bool" where
  "verifyEntry L entry =
     (case generateHash L entry of
        Inl err \<Rightarrow> Inl err
      | Inr computedHash \<Rightarrow> Inr (Some computedHash = entry_hash entry))"

section \<open>security/anti-manipulation.ts\<close>

subsection \<open>WhaleDetector\<close>

record Order =
  order_id :: string
  order_marketId :: string
  order_trader :: string
  order_side :: string
  order_amount :: int
  order_price :: int
  order_timestamp :: int
  order_blockNumber :: int

record WhaleAlert =
  alert_type :: string
  alert_severity :: string
  alert_trader :: string
  alert_marketId :: string
  alert_amount :: int
  alert_impact :: number
  alert_message :: string
  alert_timestamp :: int

record WhaleDetector =
  volumeThreshold :: int
  priceImpactThreshold :: real
  historyWindowMs :: int
  orderHistory :: "string \<rightharpoonup> Order list"
  volume24h :: "string \<rightharpoonup> int"

definition WhaleDetector_new :: "int \<Rightarrow> real option \<Rightarrow> int option \<Rightarrow> WhaleDetector" where
  "WhaleDetector_new threshold impactThreshold window =
     \<lparr>volumeThreshold = threshold,
      priceImpactThreshold = (case impactThreshold of None \<Rightarrow> nearest 0.02 | Some t \<Rightarrow> t),
      historyWindowMs = (case window of None \<Rightarrow> 86400000 | Some w \<Rightarrow> w),
      orderHistory = Map.empty, volume24h = Map.empty\<rparr>"

definition calculatePriceImpact :: "int \<Rightarrow> int \<Rightarrow> number" where
  "calculatePriceImpact amt liq =
     (if liq = 0 then Finite 1
      else number_div (Number_of_bigint amt)
             (number_add (Number_of_bigint liq) (Number_of_bigint amt)))"

definition storeOrder :: "int \<Rightarrow> WhaleDetector \<Rightarrow> Order \<Rightarrow> WhaleDetector" where
  "storeOrder now w order =
     (let marketOrders = (case orderHistory w (order_marketId order) of
                            None \<Rightarrow> [] | Some stored \<Rightarrow> stored) @ [order];
          cutoff = now - historyWindowMs w;
          filtered = filter (\<lambda>x. order_timestamp x > cutoff) marketOrders
      in w\<lparr>orderHistory := (orderHistory w)(order_marketId order \<mapsto> filtered)\<rparr>)"

definition updateVolume :: "WhaleDetector \<Rightarrow> string \<Rightarrow> int \<Rightarrow> WhaleDetector" where
  "updateVolume w market volume = w\<lparr>volume24h := (volume24h w)(market \<mapsto> volume)\<rparr>"

definition whale_order_alert :: "Library \<Rightarrow> int \<Rightarrow> Order \<Rightarrow> int \<Rightarrow> WhaleAlert" where
  "whale_order_alert L now order liq =
     \<lparr>alert_type = ''WHALE_ORDER'', alert_severity = ''HIGH'',
      alert_trader = order_trader order, alert_marketId = order_marketId order,
      alert_amount = order_amount order,
      alert_impact = calculatePriceImpact (order_amount order) liq,
      alert_message = ''Large order detected: '' @ bigint_toString L (order_amount order) @ '' units'',
      alert_timestamp = now\<rparr>"

definition price_impact_alert :: "Library \<Rightarrow> int \<Rightarrow> Order \<Rightarrow> number \<Rightarrow> WhaleAlert" where
  "price_impact_alert L now order imp =
     \<lparr>alert_type = ''PRICE_IMPACT'',
      alert_severity =
        (if number_lt (Finite (nearest 0.05)) imp then ''CRITICAL'' else ''MEDIUM''),
      alert_trader = order_trader order, alert_marketId = order_marketId order,
      alert_amount = order_amount order, alert_impact = imp,
      alert_message = ''High price impact detected: ''
        @ toFixed L (number_mul imp (Finite 100)) 2 @ ''%'',
      alert_timestamp = now\<rparr>"

definition whale_trade_alert :: "Library \<Rightarrow> int \<Rightarrow> Order \<Rightarrow> number \<Rightarrow> WhaleAlert" where
  "whale_trade_alert L now order relativeSize =
     \<lparr>alert_type = ''WHALE_TRADE'',
      alert_severity =
        (if number_lt (Finite 0.25) relativeSize then ''CRITICAL'' else ''HIGH''),
      alert_trader = order_trader order, alert_marketId = order_marketId order,
      alert_amount = order_amount order, alert_impact = relativeSize,
      alert_message = ''Order represents ''
        @ toFixed L (number_mul relativeSize (Finite 100)) 1 @ ''% of 24h volume'',
      alert_timestamp = now\<rparr>"

text \<open>The array \<open>alerts\<close> that \<open>analyzeOrder\<close> fills, in the order of its three checks.\<close>

definition collected_alerts :: "Library \<Rightarrow> int \<Rightarrow> WhaleDetector \<Rightarrow> Order \<Rightarrow> int \<Rightarrow> WhaleAlert list" where
  "collected_alerts L now w order currentLiquidity =
     (let imp = calculatePriceImpact (order_amount order) currentLiquidity;
          marketVolume = (case volume24h w (order_marketId order) of None \<Rightarrow> 0 | Some v \<Rightarrow> v);
          relativeSize =
            number_div (Number_of_bigint (order_amount order)) (Number_of_bigint marketVolume)
      in (if order_amount order \<ge> volumeThreshold w
          then [whale_order_alert L now order currentLiquidity] else [])
       @ (if number_le (Finite (priceImpactThreshold w)) imp
          then [price_impact_alert L now order imp] else [])
       @ (if marketVolume > 0 \<and> number_lt (Finite (nearest 0.1)) relativeSize
          then [whale_trade_alert L now order relativeSize] else []))"

definition analyzeOrder :: "Library \<Rightarrow> int \<Rightarrow> WhaleDetector \<Rightarrow> Order \<Rightarrow> int
                              \<Rightarrow> WhaleDetector \<times> WhaleAlert option" where
  "analyzeOrder L now w order currentLiquidity =
     (let alerts = collected_alerts L now w order currentLiquidity;
          w' = storeOrder now w order
      in (w', case alerts of [] \<Rightarrow> None | first # _ \<Rightarrow> Some first))"

text \<open>The order of severities, \<open>LOW < MEDIUM < HIGH < CRITICAL\<close>.\<close>

definition severity_rank :: "string \<Rightarrow> nat" where
  "severity_rank s =
     (if s = ''CRITICAL'' then 3 else if s = ''HIGH'' then 2 else if s = ''MEDIUM'' then 1 else 0)"

subsection \<open>OracleMonitor\<close>

record OracleStatus =
  oracle_source :: string
  oracle_isActive :: bool
  oracle_lastUpdate :: int
  oracle_price :: int
  oracle_deviation :: real
  oracle_stalenessMs :: int
  oracle_confidence :: real

record OracleMonitor =
  sources :: "string list"
  maxStalenessMs :: int
  maxDeviationPercent :: real
  sourceStates :: "string \<rightharpoonup> OracleStatus"

record OracleHealth =
  healthy :: bool
  issues :: "string list"

definition OracleMonitor_new :: "string list \<Rightarrow> int option \<Rightarrow> real option \<Rightarrow> OracleMonitor" where
  "OracleMonitor_new srcs staleness dev =
     \<lparr>sources = srcs,
      maxStalenessMs = (case staleness of None \<Rightarrow> 300000 | Some s \<Rightarrow> s),
      maxDeviationPercent = (case dev of None \<Rightarrow> 0.02 | Some d \<Rightarrow> d),
      sourceStates = Map.empty\<rparr>"

definition source_issues :: "Library \<Rightarrow> OracleMonitor \<Rightarrow> string \<Rightarrow> string list" where
  "source_issues L m source =
     (case sourceStates m source of
        None \<Rightarrow> [source @ '': No data received'']
      | Some state \<Rightarrow>
          (if oracle_stalenessMs state > maxStalenessMs m
           then [source @ '': Stale data ('' @ toFixed L (Finite (real_of_int (oracle_stalenessMs state) / 1000)) 0
                   @ ''s old)'']
           else [])
        @ (if oracle_deviation state > maxDeviationPercent m
           then [source @ '': High deviation ('' @ toFixed L (Finite (oracle_deviation state * 100)) 2 @ ''%)'']
           else []))"

definition checkHealth :: "Library \<Rightarrow> OracleMonitor \<Rightarrow> OracleHealth" where
  "checkHealth L m =
     (let found = concat (map (source_issues L m) (sources m))
      in \<lparr>healthy = (length found = 0), issues = found\<rparr>)"

section \<open>agents/base-agent.ts\<close>

record AgentConfig =
  cfg_name :: string
  cfg_maxPositionPercent :: real
  minConfidenceThreshold :: real
  cfg_kellyFraction :: real
  cfg_stopLossPercent :: real
  cfg_takeProfitPercent :: "real option"
  cfg_maxDailyDrawdownPercent :: real
  cfg_maxTotalDrawdownPercent :: real
  cfg_rebalanceThreshold :: real
  whaleThreshold :: int
  tradingEnabled :: bool

record Wallet =
  address :: string
  balance :: int

record PortfolioPosition =
  pos_marketId :: string
  position :: int
  pos_entryPrice :: int
  pos_currentPrice :: int
  pos_timestamp :: int

record PortfolioState =
  totalValue :: int
  positions :: "PortfolioPosition list"
  cash :: int
  lastRebalance :: int

record MarketData =
  md_marketId :: string
  md_currentPrice :: int
  liquidity :: int
  md_volume24h :: int
  volatility :: real
  md_timestamp :: int

record Prediction =
  pred_marketId :: string
  outcome :: bool
  pred_confidence :: real
  expectedValue :: real
  pred_timestamp :: int

record TradeDecision =
  action :: string
  amount :: int
  marketId :: string
  decision_reason :: string
  confidence :: real

text \<open>
  The agent.  An alert handler is a callback; its only effect inside the model is that it
  may throw.  The fields \<open>washTradingDetector\<close> and \<open>sandwichProtector\<close> are never read by
  the methods embedded here and are left out.
\<close>

record BaseAgent =
  config :: AgentConfig
  wallet :: Wallet
  portfolio :: PortfolioState
  drawdownProtector :: DrawdownProtector
  stopLossManagers :: "string \<rightharpoonup> StopLossManager"
  portfolioBalancer :: PortfolioBalancer
  whaleDetector :: WhaleDetector
  oracleMonitor :: OracleMonitor
  auditLogger :: AuditLogger
  isRunning :: bool
  alertHandlers :: "(WhaleAlert \<Rightarrow> error option) list"

definition BaseAgent_new :: "int \<Rightarrow> AgentConfig \<Rightarrow> Wallet \<Rightarrow> AuditLogger \<Rightarrow> error + BaseAgent" where
  "BaseAgent_new now cfg w logger =
     (let pf = \<lparr>totalValue = balance w, positions = [], cash = balance w, lastRebalance = now\<rparr>;
          drawdownConfig =
            \<lparr>maxDailyDrawdownPercent = cfg_maxDailyDrawdownPercent cfg,
             maxTotalDrawdownPercent = cfg_maxTotalDrawdownPercent cfg,
             cooldownPeriodMs = 3600000, pauseOnTrigger = True\<rparr>;
          protector = DrawdownProtector_new now drawdownConfig (balance w)
      in case PortfolioBalancer_new [] (Some (cfg_rebalanceThreshold cfg)) None of
           Inl err \<Rightarrow> Inl err
         | Inr balancer \<Rightarrow>
             Inr \<lparr>config = cfg, wallet = w, portfolio = pf, drawdownProtector = protector,
                  stopLossManagers = Map.empty, portfolioBalancer = balancer,
                  whaleDetector = WhaleDetector_new (whaleThreshold cfg) None None,
                  oracleMonitor = OracleMonitor_new [''chainlink'', ''uniswap'', ''binance''] None None,
                  auditLogger = logger, isRunning = False, alertHandlers = []\<rparr>)"

subsection \<open>Payloads of the logged events\<close>

definition json_of_status :: "DrawdownStatus \<Rightarrow> jsval" where
  "json_of_status st =
     JObj [(''canTrade'', JBool (canTrade st)), (''drawdownPercent'', JNum (Finite (drawdownPercent st))),
           (''dailyDrawdownPercent'', JNum (Finite (dailyDrawdownPercent st))), (''status'', JStr (status st))]"

definition json_of_alert :: "WhaleAlert \<Rightarrow> jsval" where
  "json_of_alert a =
     JObj [(''type'', JStr (alert_type a)), (''severity'', JStr (alert_severity a)),
           (''trader'', JStr (alert_trader a)), (''marketId'', JStr (alert_marketId a)),
           (''amount'', JBigInt (alert_amount a)), (''impact'', JNum (alert_impact a)),
           (''message'', JStr (alert_message a)),
           (''timestamp'', JNum (Finite (real_of_int (alert_timestamp a))))]"

definition json_of_decision :: "TradeDecision \<Rightarrow> jsval" where
  "json_of_decision d =
     JObj [(''action'', JStr (action d)), (''amount'', JBigInt (amount d)),
           (''marketId'', JStr (marketId d)), (''reason'', JStr (decision_reason d)),
           (''confidence'', JNum (Finite (confidence d)))]"

subsection \<open>Methods\<close>

definition logEvent :: "Library \<Rightarrow> int \<Rightarrow> 'a BaseAgent_scheme \<Rightarrow> string \<Rightarrow> jsval
                          \<Rightarrow> 'a BaseAgent_scheme \<times> (error + unit)" where
  "logEvent L now ag kind payload =
     (case log L now (auditLogger ag)
             \<lparr>entry_type = kind, entry_agent = cfg_name (config ag), entry_data = payload,
              entry_timestamp = now\<rparr> of
        (logger, Inl err) \<Rightarrow> (ag\<lparr>auditLogger := logger\<rparr>, Inl err)
      | (logger, Inr _) \<Rightarrow> (ag\<lparr>auditLogger := logger\<rparr>, Inr ()))"

fun run_handlers :: "(WhaleAlert \<Rightarrow> error option) list \<Rightarrow> WhaleAlert \<Rightarrow> error option" where
  "run_handlers [] a = None"
| "run_handlers (h # hs) a = (case h a of Some err \<Rightarrow> Some err | None \<Rightarrow> run_handlers hs a)"

definition handleAlert :: "Library \<Rightarrow> int \<Rightarrow> 'a BaseAgent_scheme \<Rightarrow> WhaleAlert
                             \<Rightarrow> 'a BaseAgent_scheme \<times> (error + unit)" where
  "handleAlert L now ag alert =
     (case run_handlers (alertHandlers ag) alert of
        Some err \<Rightarrow> (ag, Inl err)
      | None \<Rightarrow> logEvent L now ag ''SECURITY_ALERT'' (json_of_alert alert))"

definition checkForManipulation :: "Library \<Rightarrow> int \<Rightarrow> 'a BaseAgent_scheme \<Rightarrow> MarketData
                             \<Rightarrow> 'a BaseAgent_scheme \<times> WhaleAlert option \<times> bool" where
  "checkForManipulation L now ag md =
     (let dummyOrder =
            \<lparr>order_id = ''check'', order_marketId = md_marketId md,
             order_trader = address (wallet ag), order_side = ''BUY'',
             order_amount = bigint_div (liquidity md) 100, order_price = md_currentPrice md,
             order_timestamp = now, order_blockNumber = 0\<rparr>;
          (detector, whaleAlert) = analyzeOrder L now (whaleDetector ag) dummyOrder (liquidity md);
          ag' = ag\<lparr>whaleDetector := detector\<rparr>
      in case whaleAlert of
           None \<Rightarrow> (ag', None, False)
         | Some a \<Rightarrow>
             if alert_severity a = ''CRITICAL'' then (ag', Some a, True) else (ag', None, False))"

definition getPositionSize :: "'a BaseAgent_scheme \<Rightarrow> string \<Rightarrow> int" where
  "getPositionSize ag market =
     (case find (\<lambda>p. pos_marketId p = market) (positions (portfolio ag)) of
        None \<Rightarrow> 0
      | Some pos \<Rightarrow> position pos)"

definition validateWithRiskManagement :: "Library \<Rightarrow> int \<Rightarrow> 'a BaseAgent_scheme \<Rightarrow> TradeDecision
        \<Rightarrow> MarketData \<Rightarrow> 'a BaseAgent_scheme \<times> (error + TradeDecision option)" where
  "validateWithRiskManagement L now ag decision md =
     (if confidence decision < minConfidenceThreshold (config ag)
      then
        (case logEvent L now ag ''LOW_CONFIDENCE''
                (JObj [(''confidence'', JNum (Finite (confidence decision))),
                       (''threshold'', JNum (Finite (minConfidenceThreshold (config ag))))]) of
           (ag1, Inl err) \<Rightarrow> (ag1, Inl err)
         | (ag1, Inr _) \<Rightarrow> (ag1, Inr None))
      else
        case calculateKellyCriterion
               \<lparr>bankroll = totalValue (portfolio ag), winProbability = confidence decision,
                winLossRatio = 1.5, kellyFraction = Some (cfg_kellyFraction (config ag)),
                maxPositionPercent = Some (cfg_maxPositionPercent (config ag))\<rparr> of
          Inl err \<Rightarrow> (ag, Inl err)
        | Inr kellySize \<Rightarrow>
            let maxPosition = bigint_div
                  (totalValue (portfolio ag) * \<lfloor>cfg_maxPositionPercent (config ag) * 10000\<rfloor>) 10000;
                positionSize = (if kellySize < maxPosition then kellySize else maxPosition)
            in
              if positionSize \<le> 0 then (ag, Inr None)
              else
                case stopLossManagers ag (marketId decision) of
                  None \<Rightarrow> (ag, Inr (Some (decision\<lparr>amount := positionSize\<rparr>)))
                | Some existingSL \<Rightarrow>
                    let (tracker, slCheck) = updatePrice existingSL (md_currentPrice md);
                        ag1 = ag\<lparr>stopLossManagers :=
                                  (stopLossManagers ag)(marketId decision \<mapsto> tracker)\<rparr>
                    in
                      if shouldExit slCheck
                      then
                        (case logEvent L now ag1 ''STOP_LOSS_TRIGGERED''
                                (JObj [(''marketId'', JStr (marketId decision)),
                                       (''reason'', (case reason slCheck of
                                                      None \<Rightarrow> JUndefined | Some r \<Rightarrow> JStr r))]) of
                           (ag2, Inl err) \<Rightarrow> (ag2, Inl err)
                         | (ag2, Inr _) \<Rightarrow>
                             (ag2, Inr (Some
                                \<lparr>action = ''SELL'',
                                 amount = getPositionSize ag2 (marketId decision),
                                 marketId = marketId decision,
                                 decision_reason = ''Stop loss: '' @
                                   (case reason slCheck of None \<Rightarrow> ''undefined'' | Some r \<Rightarrow> r),
                                 confidence = 1.0\<rparr>)))
                      else (ag1, Inr (Some (decision\<lparr>amount := positionSize\<rparr>))))"

text \<open>
  \<open>makeTradingDecision\<close> is abstract in \<open>BaseAgent\<close>; the strategy of the concrete agent is
  the argument \<open>strategy\<close>.  It may change the agent (it can log) and it may throw.
\<close>

type_synonym 'a strategy =
  "'a BaseAgent_scheme \<Rightarrow> MarketData \<Rightarrow> Prediction
     \<Rightarrow> 'a BaseAgent_scheme \<times> (error + TradeDecision option)"

text \<open>Steps 4 to 6 inside \<open>try\<close> of \<open>processMarketData\<close>: decide, validate, log.\<close>

definition decide_and_validate :: "Library \<Rightarrow> int \<Rightarrow> 'a strategy \<Rightarrow> 'a BaseAgent_scheme
        \<Rightarrow> MarketData \<Rightarrow> Prediction \<Rightarrow> 'a BaseAgent_scheme \<times> (error + TradeDecision option)" where
  "decide_and_validate L now strategy ag md prediction =
     (case strategy ag md prediction of
        (ag4, Inl err) \<Rightarrow> (ag4, Inl err)
      | (ag4, Inr None) \<Rightarrow> (ag4, Inr None)
      | (ag4, Inr (Some decision)) \<Rightarrow>
          if action decision = ''HOLD'' then (ag4, Inr None)
          else
            (case validateWithRiskManagement L now ag4 decision md of
               (ag5, Inl err) \<Rightarrow> (ag5, Inl err)
             | (ag5, Inr None) \<Rightarrow> (ag5, Inr None)
             | (ag5, Inr (Some validatedDecision)) \<Rightarrow>
                 (case logEvent L now ag5 ''TRADE_DECISION''
                         (JObj [(''decision'', json_of_decision validatedDecision)]) of
                    (ag6, Inl err) \<Rightarrow> (ag6, Inl err)
                  | (ag6, Inr _) \<Rightarrow> (ag6, Inr (Some validatedDecision)))))"

text \<open>The statements inside \<open>try\<close> of \<open>processMarketData\<close>.\<close>

definition processMarketData_try :: "Library \<Rightarrow> int \<Rightarrow> 'a strategy \<Rightarrow> 'a BaseAgent_scheme
        \<Rightarrow> MarketData \<Rightarrow> Prediction \<Rightarrow> 'a BaseAgent_scheme \<times> (error + TradeDecision option)" where
  "processMarketData_try L now strategy ag md prediction =
     (let (protector, drawdownStatus) =
            updateValue now (drawdownProtector ag) (totalValue (portfolio ag));
          ag1 = ag\<lparr>drawdownProtector := protector\<rparr>
      in
        if \<not> canTrade drawdownStatus
        then
          (case logEvent L now ag1 ''DRAWDOWN_HALT''
                  (JObj [(''status'', json_of_status drawdownStatus)]) of
             (ag2, Inl err) \<Rightarrow> (ag2, Inl err)
           | (ag2, Inr _) \<Rightarrow> (ag2, Inr None))
        else
          let oracleHealth = checkHealth L (oracleMonitor ag1) in
          if \<not> healthy oracleHealth
          then
            (case logEvent L now ag1 ''ORACLE_UNHEALTHY''
                    (JObj [(''issues'', JArr (map JStr (issues oracleHealth)))]) of
               (ag2, Inl err) \<Rightarrow> (ag2, Inl err)
             | (ag2, Inr _) \<Rightarrow> (ag2, Inr None))
          else
            case checkForManipulation L now ag1 md of
              (ag2, None, blockTrade) \<Rightarrow> decide_and_validate L now strategy ag2 md prediction
            | (ag2, Some alert, blockTrade) \<Rightarrow>
                (case handleAlert L now ag2 alert of
                   (ag3, Inl err) \<Rightarrow> (ag3, Inl err)
                 | (ag3, Inr _) \<Rightarrow>
                     if blockTrade then (ag3, Inr None)
                     else decide_and_validate L now strategy ag3 md prediction))"

definition processMarketData :: "Library \<Rightarrow> int \<Rightarrow> 'a strategy \<Rightarrow> 'a BaseAgent_scheme
        \<Rightarrow> MarketData \<Rightarrow> Prediction \<Rightarrow> 'a BaseAgent_scheme \<times> (error + TradeDecision option)" where
  "processMarketData L now strategy ag md prediction =
     (if \<not> isRunning ag \<or> \<not> tradingEnabled (config ag) then (ag, Inr None)
      else
        case processMarketData_try L now strategy ag md prediction of
          (ag', Inl err) \<Rightarrow>
            (case logEvent L now ag' ''ERROR'' (JObj [(''error'', JStr (error_message err))]) of
               (ag'', Inl err') \<Rightarrow> (ag'', Inl err')
             | (ag'', Inr _) \<Rightarrow> (ag'', Inr None))
        | (ag', Inr result) \<Rightarrow> (ag', Inr result))"

section \<open>agents/conservative-bot.ts: the constructor\<close>

record ConservativeCustomParams =
  confidenceThreshold :: "real option"
  custom_maxPositionPercent :: "real option"
  custom_stopLossPercent :: "real option"
  custom_maxVolatility :: "real option"

record ConservativeConfig =
  cc_wallet :: Wallet
  cc_auditLogger :: AuditLogger
  customParams :: "ConservativeCustomParams option"

record ConservativeBot = BaseAgent +
  maxVolatility :: real

text \<open>\<open>config.customParams?.field || d\<close>\<close>

definition custom_or :: "ConservativeConfig \<Rightarrow> (ConservativeCustomParams \<Rightarrow> real option) \<Rightarrow> real \<Rightarrow> real" where
  "custom_or c field d =
     (case customParams c of
        None \<Rightarrow> d
      | Some cp \<Rightarrow> if truthy_number (field cp) then the (field cp) else d)"

definition ConservativeBot_new :: "int \<Rightarrow> ConservativeConfig \<Rightarrow> error + ConservativeBot" where
  "ConservativeBot_new now c =
     (let agentConfig =
            \<lparr>cfg_name = ''ConservativeBot'',
             cfg_maxPositionPercent = custom_or c custom_maxPositionPercent 0.01,
             minConfidenceThreshold = custom_or c confidenceThreshold 0.70,
             cfg_kellyFraction = 0.1,
             cfg_stopLossPercent = custom_or c custom_stopLossPercent 0.02,
             cfg_takeProfitPercent = Some 0.05,
             cfg_maxDailyDrawdownPercent = 0.03,
             cfg_maxTotalDrawdownPercent = 0.10,
             cfg_rebalanceThreshold = 0.02,
             whaleThreshold = 1000000000000000000,
             tradingEnabled = True\<rparr>
      in case BaseAgent_new now agentConfig (cc_wallet c) (cc_auditLogger c) of
           Inl err \<Rightarrow> Inl err
         | Inr base \<Rightarrow>
             (case PortfolioBalancer_new
                     [(''stable'', 0.5), (''moderate'', 0.3), (''speculative'', 0.2)] (Some 0.02) None of
                Inl err \<Rightarrow> Inl err
              | Inr balancer \<Rightarrow>
                  Inr (BaseAgent.extend (base\<lparr>portfolioBalancer := balancer\<rparr>)
                         (ConservativeBot.fields (custom_or c custom_maxVolatility 0.3)))))"

section \<open>Concrete inputs\<close>

subsection \<open>An instance of the library parameters\<close>

text \<open>
  To run the model on concrete inputs the library parameters need values.  The instance
  below prints integers in decimal, rounds in \<open>toFixed\<close>, and serialises a value in the
  manner of \<open>JSON.stringify\<close>: members whose value is \<open>undefined\<close> are dropped, a
  \<open>bigint\<close> anywhere in the value raises a \<open>TypeError\<close>, quotes and backslashes in
  strings are escaped.  A number that is not an integer is printed with six decimals, an
  infinity or \<open>NaN\<close> as \<open>null\<close>.
  The hash is the identity, which is injective.
\<close>

fun decimal :: "nat \<Rightarrow> string" where
  "decimal n = (if n < 10 then [''0123456789'' ! n]
                else decimal (n div 10) @ [''0123456789'' ! (n mod 10)])"

declare decimal.simps [simp del]

definition int_text :: "int \<Rightarrow> string" where
  "int_text i = (if i < 0 then ''-'' @ decimal (nat (- i)) else decimal (nat i))"

definition sample_toFixed :: "real \<Rightarrow> nat \<Rightarrow> string" where
  "sample_toFixed r n =
     (let scaled = nat \<lfloor>\<bar>r\<bar> * 10 ^ n + 1 / 2\<rfloor>;
          whole = decimal (scaled div 10 ^ n);
          frac = decimal (scaled mod 10 ^ n);
          padded = replicate (n - length frac) (CHR ''0'') @ frac
      in (if r < 0 then ''-'' else []) @ whole
         @ (if n = 0 then [] else ''.'' @ padded))"

definition quote :: "string \<Rightarrow> string" where
  "quote s =
     [CHR 0x22]
     @ concat (map (\<lambda>c. if c = CHR 0x22 \<or> c = CHR 0x5C then [CHR 0x5C, c] else [c]) s)
     @ [CHR 0x22]"

fun join :: "string \<Rightarrow> string list \<Rightarrow> string" where
  "join sep [] = []"
| "join sep [x] = x"
| "join sep (x # y # ys) = x @ sep @ join sep (y # ys)"

fun contains_bigint :: "jsval \<Rightarrow> bool" where
  "contains_bigint (JBigInt i) = True"
| "contains_bigint (JArr xs) = list_ex contains_bigint xs"
| "contains_bigint (JObj kvs) = list_ex (\<lambda>kv. contains_bigint (snd kv)) kvs"
| "contains_bigint v = False"

fun json_text :: "jsval \<Rightarrow> string" where
  "json_text JUndefined = ''null''"
| "json_text JNull = ''null''"
| "json_text (JBool b) = (if b then ''true'' else ''false'')"
| "json_text (JNum (Finite r)) =
     (if r = of_int \<lfloor>r\<rfloor> then int_text \<lfloor>r\<rfloor> else sample_toFixed r 6)"
| "json_text (JNum other) = ''null''"
| "json_text (JBigInt i) = []"
| "json_text (JStr s) = quote s"
| "json_text (JArr xs) = ''['' @ join '','' (map json_text xs) @ '']''"
| "json_text (JObj kvs) =
     ''{'' @ join '','' (map (\<lambda>kv. quote (fst kv) @ '':'' @ json_text (snd kv))
                           (filter (\<lambda>kv. snd kv \<noteq> JUndefined) kvs)) @ ''}''"

definition number_toFixed :: "number \<Rightarrow> nat \<Rightarrow> string" where
  "number_toFixed a n =
     (case a of
        Finite r \<Rightarrow> sample_toFixed r n
      | PosInfinity \<Rightarrow> ''Infinity''
      | NegInfinity \<Rightarrow> ''-Infinity''
      | NaN \<Rightarrow> ''NaN'')"

definition sample_stringify :: "jsval \<Rightarrow> error + string" where
  "sample_stringify v =
     (if contains_bigint v then Inl (TypeError ''Do not know how to serialize a BigInt'')
      else Inr (json_text v))"

definition sample_library :: Library where
  "sample_library =
     \<lparr>stringify = sample_stringify, keccak256 = (\<lambda>serialized. serialized), toFixed = number_toFixed,
      bigint_toString = int_text\<rparr>"

subsection \<open>An agent in the middle of a run\<close>

text \<open>
  The state of a conservative agent that is running, has a balance of 10 ETH, holds no
  position, has logged nothing yet and has heard from all three oracle sources.
\<close>

definition sample_config :: AgentConfig where
  "sample_config =
     \<lparr>cfg_name = ''ConservativeBot'', cfg_maxPositionPercent = 0.01,
      minConfidenceThreshold = 0.70, cfg_kellyFraction = 0.1, cfg_stopLossPercent = 0.02,
      cfg_takeProfitPercent = Some 0.05, cfg_maxDailyDrawdownPercent = 0.03,
      cfg_maxTotalDrawdownPercent = 0.10, cfg_rebalanceThreshold = 0.02,
      whaleThreshold = 1000000000000000000, tradingEnabled = True\<rparr>"

definition fresh_status :: "string \<Rightarrow> OracleStatus" where
  "fresh_status source =
     \<lparr>oracle_source = source, oracle_isActive = True, oracle_lastUpdate = 1000,
      oracle_price = 1000, oracle_deviation = 0, oracle_stalenessMs = 0, oracle_confidence = 1\<rparr>"

definition sample_oracle :: OracleMonitor where
  "sample_oracle =
     (OracleMonitor_new [''chainlink'', ''uniswap'', ''binance''] None None)
       \<lparr>sourceStates := [''chainlink'' \<mapsto> fresh_status ''chainlink'',
                         ''uniswap'' \<mapsto> fresh_status ''uniswap'',
                         ''binance'' \<mapsto> fresh_status ''binance'']\<rparr>"

definition sample_logger :: AuditLogger where
  "sample_logger =
     \<lparr>logger_mode = ''local'', entries = [], wallet_signer = None, contract_logEntry = None,
      lastFlush = 0, flushIntervalMs = 60000, merkleTree = []\<rparr>"

definition sample_agent :: BaseAgent where
  "sample_agent =
     \<lparr>config = sample_config,
      wallet = \<lparr>address = ''0x1111'', balance = 10000000000000000000\<rparr>,
      portfolio = \<lparr>totalValue = 10000000000000000000, positions = [],
                   cash = 10000000000000000000, lastRebalance = 0\<rparr>,
      drawdownProtector = DrawdownProtector_new 0
        \<lparr>maxDailyDrawdownPercent = 0.03, maxTotalDrawdownPercent = 0.10,
         cooldownPeriodMs = 3600000, pauseOnTrigger = True\<rparr> 10000000000000000000,
      stopLossManagers = Map.empty,
      portfolioBalancer = \<lparr>targetAllocations =
                             [(''stable'', 0.5), (''moderate'', 0.3), (''speculative'', 0.2)],
                           rebalanceThreshold = 0.02, maxSlippagePercent = 1.0\<rparr>,
      whaleDetector = WhaleDetector_new 1000000000000000000 None None,
      oracleMonitor = sample_oracle,
      auditLogger = sample_logger,
      isRunning = True,
      alertHandlers = []\<rparr>"

definition sample_market :: MarketData where
  "sample_market =
     \<lparr>md_marketId = ''MARKET1'', md_currentPrice = 1000, liquidity = 10000000000000000000,
      md_volume24h = 0, volatility = 0.1, md_timestamp = 1000\<rparr>"

definition prediction_with :: "real \<Rightarrow> Prediction" where
  "prediction_with c =
     \<lparr>pred_marketId = ''MARKET1'', outcome = True, pred_confidence = c, expectedValue = 0,
      pred_timestamp = 1000\<rparr>"

text \<open>Two strategies: one always proposes \<open>HOLD\<close>, one always proposes \<open>BUY\<close>, both with
  the confidence of the prediction.\<close>

definition propose :: "string \<Rightarrow> unit strategy" where
  "propose act ag md p =
     (ag, Inr (Some \<lparr>action = act, amount = 0, marketId = md_marketId md,
                      decision_reason = ''signal'', confidence = pred_confidence p\<rparr>))"

subsection \<open>Inputs of the repository's tests\<close>

definition kelly_example :: PositionSizingParams where
  "kelly_example =
     \<lparr>bankroll = 10000, winProbability = 0.75, winLossRatio = 1.5,
      kellyFraction = Some 0.25, maxPositionPercent = Some 0.125\<rparr>"

text \<open>A payoff ratio of \<open>2 ^ - 1030\<close> with a Kelly fraction of zero, and a cap of \<open>0.3\<close>,
  which as a double is \<open>5404319552844595 / 2 ^ 54\<close>.\<close>

definition kelly_overflow_example :: PositionSizingParams where
  "kelly_overflow_example =
     \<lparr>bankroll = 10000, winProbability = 1 / 2, winLossRatio = 1 / 2 ^ 1030,
      kellyFraction = Some 0, maxPositionPercent = None\<rparr>"

text \<open>The double \<open>0.35\<close> is \<open>3152519739159347 / 2 ^ 53\<close>.\<close>

definition kelly_rounding_example :: PositionSizingParams where
  "kelly_rounding_example =
     \<lparr>bankroll = 10000, winProbability = 3152519739159347 / 2 ^ 53, winLossRatio = 2,
      kellyFraction = Some 0.5, maxPositionPercent = None\<rparr>"

definition kelly_cap_example :: PositionSizingParams where
  "kelly_cap_example =
     \<lparr>bankroll = 10000, winProbability = 3 / 4, winLossRatio = 1,
      kellyFraction = Some 1, maxPositionPercent = Some (5404319552844595 / 2 ^ 54)\<rparr>"

definition kelly_invalid_example :: PositionSizingParams where
  "kelly_invalid_example =
     \<lparr>bankroll = 10000, winProbability = 1.5, winLossRatio = 1,
      kellyFraction = None, maxPositionPercent = None\<rparr>"

definition test_order :: "int \<Rightarrow> Order" where
  "test_order amt =
     \<lparr>order_id = ''1'', order_marketId = ''MARKET1'', order_trader = ''0x123'',
      order_side = ''BUY'', order_amount = amt, order_price = 1000, order_timestamp = 1000,
      order_blockNumber = 1\<rparr>"

definition test_detector :: WhaleDetector where
  "test_detector = WhaleDetector_new 1000000000000000000 None None"

definition test_entry :: AuditEntryBase where
  "test_entry =
     \<lparr>entry_type = ''TEST'', entry_agent = ''test-agent'',
      entry_data = JObj [(''test'', JBool True)], entry_timestamp = 1700000000000\<rparr>"

text \<open>The sample agent with the thresholds of the aggressive bot.\<close>

definition aggressive_agent :: BaseAgent where
  "aggressive_agent =
     sample_agent\<lparr>config := sample_config
       \<lparr>cfg_name := ''AggressiveBot'', cfg_maxPositionPercent := 0.10,
        minConfidenceThreshold := 0.30, cfg_kellyFraction := 0.5\<rparr>\<rparr>"

text \<open>The entry that \<open>log\<close> stores for \<open>test_entry\<close> under the sample library.\<close>

definition stored_test_entry :: AuditEntry where
  "stored_test_entry = AuditEntryBase.extend test_entry
     (AuditEntry.fields (Some (json_text (canonical test_entry))) None)"

section \<open>Rounding to a double\<close>

text \<open>Rounding to the nearest integer, ties to even, is monotone and odd.\<close>

lemma rhe_mono: "x \<le> y \<Longrightarrow> round_half_even x \<le> round_half_even y"
proof -
  assume xy: "x \<le> y"
  have fl: "\<lfloor>x\<rfloor> \<le> \<lfloor>y\<rfloor>" using xy by (rule floor_mono)
  show ?thesis
  proof (cases "\<lfloor>x\<rfloor> = \<lfloor>y\<rfloor>")
    case True
    then show ?thesis using xy unfolding round_half_even_def by auto
  next
    case False
    then have "\<lfloor>x\<rfloor> + 1 \<le> \<lfloor>y\<rfloor>" using fl by linarith
    moreover have "round_half_even x \<le> \<lfloor>x\<rfloor> + 1" unfolding round_half_even_def by auto
    moreover have "\<lfloor>y\<rfloor> \<le> round_half_even y" unfolding round_half_even_def by auto
    ultimately show ?thesis by linarith
  qed
qed

lemma rhe_of_int [simp]: "round_half_even (of_int n) = n"
  by (simp add: round_half_even_def)

lemma rhe_minus: "round_half_even (- x) = - round_half_even x"
proof (cases "x = of_int \<lfloor>x\<rfloor>")
  case True
  then obtain n where "x = of_int n" by metis
  then show ?thesis by (simp flip: of_int_minus)
next
  case False
  then have c: "\<lfloor>- x\<rfloor> = - \<lfloor>x\<rfloor> - 1"
    by (simp add: floor_minus ceiling_altdef)
  define f where "f = \<lfloor>x\<rfloor>"
  define d where "d = x - of_int f"
  have x: "x = of_int f + d" by (simp add: d_def)
  have fx: "\<lfloor>x\<rfloor> = f" by (simp add: f_def)
  have d': "- x - of_int (- f - 1) = 1 - d" by (simp add: d_def)
  have r1: "round_half_even x = (if d < 1 / 2 then f else if d > 1 / 2 then f + 1
                                 else if even f then f else f + 1)"
    unfolding round_half_even_def fx d_def by simp
  have r2: "round_half_even (- x) = (if 1 - d < 1 / 2 then - f - 1
                                     else if 1 - d > 1 / 2 then - f
                                     else if even (- f - 1) then - f - 1 else - f)"
    unfolding round_half_even_def c fx d' by simp
  consider "d < 1 / 2" | "d > 1 / 2" | "d = 1 / 2" by linarith
  then show ?thesis
  proof cases
    case 1
    then show ?thesis by (simp add: r1 r2)
  next
    case 2
    then show ?thesis by (simp add: r1 r2)
  next
    case 3
    then show ?thesis by (simp add: r1 r2)
  qed
qed

lemma ulp_53: "2 ^ 53 * ulp x = 2 powr (of_int (binade x) + 1)"
proof -
  have "(2::real) ^ 53 = 2 powr 53" by simp
  then have "2 ^ 53 * ulp x = 2 powr 53 * 2 powr (of_int (binade x) - 52)"
    by (simp only: ulp_def)
  also have "\<dots> = 2 powr (of_int (binade x) + 1)"
    by (subst powr_add [symmetric]) (simp add: add.commute)
  finally show ?thesis .
qed

lemma ulp_52: "2 ^ 52 * ulp x = 2 powr (of_int (binade x))"
proof -
  have "(2::real) ^ 52 = 2 powr 52" by simp
  then have "2 ^ 52 * ulp x = 2 powr 52 * 2 powr (of_int (binade x) - 52)"
    by (simp only: ulp_def)
  also have "\<dots> = 2 powr (of_int (binade x))"
    by (subst powr_add [symmetric]) simp
  finally show ?thesis .
qed

lemma rhe_nonneg:
  assumes "0 \<le> x"
  shows "0 \<le> round_half_even x"
proof -
  have "round_half_even (of_int 0) \<le> round_half_even x"
    by (rule rhe_mono) (simp add: assms)
  then show ?thesis by (simp only: rhe_of_int)
qed

lemma ulp_pos [simp]: "0 < ulp x"
  by (simp add: ulp_def)

lemma ulp_nonneg [simp]: "0 \<le> ulp x"
  by (simp add: ulp_def)

lemma binade_mono: "0 < x \<Longrightarrow> x \<le> y \<Longrightarrow> binade x \<le> binade y"
  unfolding binade_def by (intro max.mono floor_mono) (simp_all add: log_le_cancel_iff)

lemma binade_minus [simp]: "binade (- x) = binade x"
  by (simp add: binade_def)

lemma ulp_minus [simp]: "ulp (- x) = ulp x"
  by (simp add: ulp_def)

lemma nearest_minus: "nearest (- x) = - nearest x"
  by (simp add: nearest_def rhe_minus)

lemma nearest_0 [simp]: "nearest 0 = 0"
  by (simp add: nearest_def)

lemma nearest_nonneg: "0 \<le> x \<Longrightarrow> 0 \<le> nearest x"
proof -
  assume "0 \<le> x"
  then have "0 \<le> round_half_even (x / ulp x)" by (intro rhe_nonneg) simp
  then show ?thesis by (simp add: nearest_def)
qed

text \<open>A positive number lies in its binade, and so does its rounding.\<close>

lemma below_next_binade: "0 < x \<Longrightarrow> x < 2 powr (of_int (binade x) + 1)"
proof -
  assume x: "0 < x"
  have "Transcendental.log 2 x < of_int \<lfloor>Transcendental.log 2 x\<rfloor> + 1" by linarith
  also have "\<dots> \<le> of_int (binade x) + 1" using x by (simp add: binade_def)
  finally have "Transcendental.log 2 x < of_int (binade x) + 1" .
  then show ?thesis using x by (simp add: log_less_iff)
qed

lemma above_binade: "0 < x \<Longrightarrow> - 1022 < binade x \<Longrightarrow> 2 powr (of_int (binade x)) \<le> x"
proof -
  assume x: "0 < x" and b: "- 1022 < binade x"
  then have "binade x = \<lfloor>Transcendental.log 2 x\<rfloor>" by (simp add: binade_def max_def split: if_splits)
  then have "of_int (binade x) \<le> Transcendental.log 2 x" by simp
  then show ?thesis using x by (simp add: le_log_iff)
qed

lemma nearest_upper: "0 < x \<Longrightarrow> nearest x \<le> 2 powr (of_int (binade x) + 1)"
proof -
  assume x: "0 < x"
  have "x < 2 ^ 53 * ulp x"
    using below_next_binade [OF x] by (simp only: ulp_53)
  then have "x / ulp x \<le> of_int (2 ^ 53)"
    by (simp add: pos_divide_le_eq)
  then have "round_half_even (x / ulp x) \<le> round_half_even (of_int (2 ^ 53))"
    by (rule rhe_mono)
  then have "round_half_even (x / ulp x) \<le> 2 ^ 53"
    by (simp only: rhe_of_int)
  then have "real_of_int (round_half_even (x / ulp x)) \<le> 2 ^ 53"
    by (simp flip: of_int_le_iff)
  then have "of_int (round_half_even (x / ulp x)) * ulp x \<le> 2 ^ 53 * ulp x"
    by (intro mult_right_mono) simp_all
  then show ?thesis using x by (simp only: ulp_53 nearest_def) simp
qed

lemma nearest_lower: "0 < x \<Longrightarrow> - 1022 < binade x \<Longrightarrow> 2 powr (of_int (binade x)) \<le> nearest x"
proof -
  assume x: "0 < x" and b: "- 1022 < binade x"
  have "2 ^ 52 * ulp x \<le> x"
    using above_binade [OF x b] by (simp only: ulp_52)
  then have "of_int (2 ^ 52) \<le> x / ulp x"
    by (simp add: pos_le_divide_eq)
  then have "round_half_even (of_int (2 ^ 52)) \<le> round_half_even (x / ulp x)"
    by (rule rhe_mono)
  then have "2 ^ 52 \<le> round_half_even (x / ulp x)"
    by (simp only: rhe_of_int)
  then have "2 ^ 52 \<le> real_of_int (round_half_even (x / ulp x))"
    by (simp flip: of_int_le_iff)
  then have "2 ^ 52 * ulp x \<le> of_int (round_half_even (x / ulp x)) * ulp x"
    by (intro mult_right_mono) simp_all
  then show ?thesis using x by (simp only: ulp_52 nearest_def) simp
qed

lemma nearest_mono_pos:
  assumes "0 < x" "x \<le> y"
  shows "nearest x \<le> nearest y"
proof (cases "binade x = binade y")
  case True
  then have u: "ulp x = ulp y" by (simp add: ulp_def)
  have "x / ulp y \<le> y / ulp y" using assms by (intro divide_right_mono) simp_all
  then have "round_half_even (x / ulp y) \<le> round_half_even (y / ulp y)" by (rule rhe_mono)
  then have "of_int (round_half_even (x / ulp y)) * ulp y \<le> of_int (round_half_even (y / ulp y)) * ulp y"
    by (intro mult_right_mono) simp_all
  then show ?thesis using assms u by (simp add: nearest_def)
next
  case False
  then have lt: "binade x < binade y" using binade_mono [OF assms] by simp
  then have b: "- 1022 < binade y" unfolding binade_def by (simp add: max_def split: if_splits)
  have y: "0 < y" using assms by simp
  have "nearest x \<le> 2 powr (of_int (binade x) + 1)" by (rule nearest_upper [OF assms(1)])
  also have "\<dots> \<le> 2 powr (of_int (binade y))" using lt by (intro powr_mono) simp_all
  also have "\<dots> \<le> nearest y" by (rule nearest_lower [OF y b])
  finally show ?thesis .
qed

lemma nearest_mono: "x \<le> y \<Longrightarrow> nearest x \<le> nearest y"
proof -
  assume xy: "x \<le> y"
  consider "0 < x" | "x \<le> 0" "0 \<le> y" | "y < 0" by linarith
  then show ?thesis
  proof cases
    case 1
    then show ?thesis using xy by (rule nearest_mono_pos)
  next
    case 2
    have "nearest x \<le> 0" using nearest_nonneg [of "- x"] 2(1) by (simp add: nearest_minus)
    moreover have "0 \<le> nearest y" using 2(2) by (rule nearest_nonneg)
    ultimately show ?thesis by simp
  next
    case 3
    then have "nearest (- y) \<le> nearest (- x)" using xy by (intro nearest_mono_pos) simp_all
    then show ?thesis by (simp add: nearest_minus)
  qed
qed

text \<open>Rounding a given number, once its binary exponent is known.\<close>

lemma binade_eq:
  assumes "2 powr (of_int k) \<le> \<bar>x\<bar>" "\<bar>x\<bar> < 2 powr (of_int k + 1)" "- 1022 \<le> k"
  shows "binade x = k"
proof -
  have x: "0 < \<bar>x\<bar>" using assms(1) by (smt (verit) powr_gt_zero)
  have "of_int k \<le> Transcendental.log 2 \<bar>x\<bar>" using assms(1) x by (simp add: le_log_iff)
  moreover have "Transcendental.log 2 \<bar>x\<bar> < of_int k + 1" using assms(2) x by (simp add: log_less_iff)
  ultimately have "\<lfloor>Transcendental.log 2 \<bar>x\<bar>\<rfloor> = k" by linarith
  then show ?thesis using assms(3) by (simp add: binade_def)
qed

lemma nearest_eval:
  assumes "2 powr (of_int k) \<le> \<bar>x\<bar>" "\<bar>x\<bar> < 2 powr (of_int k + 1)" "- 1022 \<le> k"
  shows "nearest x = of_int (round_half_even (x / 2 powr (of_int k - 52))) * 2 powr (of_int k - 52)"
proof -
  have "x \<noteq> 0" using assms(1) by (smt (verit) powr_gt_zero)
  then show ?thesis using binade_eq [OF assms] by (simp add: nearest_def ulp_def)
qed

lemmas nearest_eval_simps = round_half_even_def powr_neg_numeral

lemma nearest_1: "nearest 1 = 1"
  by (subst nearest_eval [of 0]) (simp_all add: nearest_eval_simps)

lemma nearest_3_2: "nearest (3 / 2) = 3 / 2"
  by (subst nearest_eval [of 0]) (simp_all add: nearest_eval_simps)

lemma nearest_10000: "nearest 10000 = 10000"
  by (subst nearest_eval [of 13]) (simp_all add: nearest_eval_simps)

lemma nearest_between:
  assumes "a \<le> x" "x \<le> b" "nearest a = a" "nearest b = b"
  shows "a \<le> nearest x \<and> nearest x \<le> b"
  using nearest_mono [OF assms(1)] nearest_mono [OF assms(2)] assms(3,4) by simp

lemma to_double_finite: "\<bar>nearest x\<bar> < 2 ^ 1024 \<Longrightarrow> to_double x = Finite (nearest x)"
  by (simp add: to_double_def)

lemma to_double_not_NaN [simp]: "to_double x \<noteq> NaN"
  by (simp add: to_double_def)

lemma to_double_0 [simp]: "to_double 0 = Finite 0"
  by (simp add: to_double_def)

lemma to_double_nonpos:
  "x \<le> 0 \<Longrightarrow> to_double x = NegInfinity \<or> (\<exists>v. to_double x = Finite v \<and> v \<le> 0)"
  using nearest_mono [of x 0] by (simp add: to_double_def)

lemma to_double_nonneg:
  "0 \<le> x \<Longrightarrow> to_double x = PosInfinity \<or> (\<exists>v. to_double x = Finite v \<and> 0 \<le> v)"
  using nearest_mono [of 0 x] by (cases "x = 0") (simp_all add: to_double_def)

text \<open>Between \<open>-10000\<close> and \<open>10000\<close> nothing overflows.\<close>

lemma to_double_small:
  assumes "a \<le> x" "x \<le> b" "nearest a = a" "nearest b = b" "- 10000 \<le> a" "b \<le> 10000"
  shows "to_double x = Finite (nearest x) \<and> a \<le> nearest x \<and> nearest x \<le> b"
proof -
  have n: "a \<le> nearest x \<and> nearest x \<le> b"
    by (rule nearest_between [OF assms(1-4)])
  then have "\<bar>nearest x\<bar> \<le> 10000" using assms(5,6) by linarith
  also have "\<dots> < (2::real) ^ 1024" by simp
  finally show ?thesis using n by (simp add: to_double_finite)
qed

lemma nearest_eval_subnormal:
  assumes "x \<noteq> 0" "\<bar>x\<bar> < 2 powr (- 1022)"
  shows "nearest x = of_int (round_half_even (x / 2 powr (- 1074))) * 2 powr (- 1074)"
proof -
  have "Transcendental.log 2 \<bar>x\<bar> < - 1022" using assms by (simp add: log_less_iff)
  then have "\<lfloor>Transcendental.log 2 \<bar>x\<bar>\<rfloor> \<le> - 1022" by linarith
  then have "binade x = - 1022" by (simp add: binade_def)
  then show ?thesis using assms(1) by (simp add: nearest_def ulp_def)
qed

text \<open>An operation on finite doubles, once the rounding of its exact result is known.\<close>

lemma to_double_eval: "nearest x = y \<Longrightarrow> \<bar>y\<bar> < 2 ^ 1024 \<Longrightarrow> to_double x = Finite y"
  by (simp add: to_double_def)

lemma number_mul_eval:
  "nearest (a * b) = y \<Longrightarrow> \<bar>y\<bar> < 2 ^ 1024 \<Longrightarrow> number_mul (Finite a) (Finite b) = Finite y"
  by (simp add: to_double_def)

lemma number_sub_eval:
  "nearest (a - b) = y \<Longrightarrow> \<bar>y\<bar> < 2 ^ 1024 \<Longrightarrow> number_sub (Finite a) (Finite b) = Finite y"
  by (simp add: to_double_def number_sub_def number_neg_def)

lemma number_add_eval:
  "nearest (a + b) = y \<Longrightarrow> \<bar>y\<bar> < 2 ^ 1024 \<Longrightarrow> number_add (Finite a) (Finite b) = Finite y"
  by (simp add: to_double_def)

lemma number_div_eval:
  "b \<noteq> 0 \<Longrightarrow> nearest (a / b) = y \<Longrightarrow> \<bar>y\<bar> < 2 ^ 1024
     \<Longrightarrow> number_div (Finite a) (Finite b) = Finite y"
  by (simp add: to_double_def)

section \<open>Position sizing\<close>

lemma bigint_div_nonneg: "0 \<le> a \<Longrightarrow> 0 < b \<Longrightarrow> bigint_div a b = a div b"
  by (cases "a = 0") (simp_all add: bigint_div_def)

lemma real_div_le: "0 < (b::int) \<Longrightarrow> real_of_int (a div b) \<le> real_of_int a / real_of_int b"
  by (metis floor_divide_of_int_eq of_int_floor_le)

text \<open>The value of \<open>calculateKellyCriterion\<close> on valid inputs, stage by stage.\<close>

lemma kelly_stages:
  assumes "0 < winProbability ps" "winProbability ps < 1" "0 < winLossRatio ps"
    and "fullKelly = number_div
           (number_sub (number_mul (Finite (winLossRatio ps)) (Finite (winProbability ps)))
              (number_sub (Finite 1) (Finite (winProbability ps))))
           (Finite (winLossRatio ps))"
    and "finalFraction = Math_min
           (Math_max (Finite 0) (number_mul fullKelly (Finite (kellyFraction_of ps))))
           (Finite (maxPositionPercent_of ps))"
  shows "calculateKellyCriterion ps =
           (case BigInt_of_number (Math_floor (number_mul finalFraction (Finite 10000))) of
              Inl err \<Rightarrow> Inl err
            | Inr basisPoints \<Rightarrow> Inr (bigint_div (bankroll ps * basisPoints) 10000))"
  using assms by (simp add: calculateKellyCriterion_def Let_def)

lemma loss_probability:
  assumes "0 < p" "p < 1"
  shows "number_sub (Finite 1) (Finite p) = Finite (nearest (1 - p))
           \<and> 0 \<le> nearest (1 - p) \<and> nearest (1 - p) \<le> 1"
proof -
  have "to_double (1 - p) = Finite (nearest (1 - p)) \<and> 0 \<le> nearest (1 - p) \<and> nearest (1 - p) \<le> 1"
    using assms by (intro to_double_small) (simp_all add: nearest_1)
  then show ?thesis by (simp add: number_sub_def number_neg_def)
qed

lemma fullKelly_not_NaN:
  assumes "0 < p" "p < 1" "0 < r"
  shows "number_div (number_sub (number_mul (Finite r) (Finite p)) (number_sub (Finite 1) (Finite p)))
           (Finite r) \<noteq> NaN"
proof -
  obtain q where q: "number_sub (Finite 1) (Finite p) = Finite q"
    using loss_probability [OF assms(1,2)] by blast
  have s: "number_sub (number_mul (Finite r) (Finite p)) (Finite q) \<noteq> NaN"
    by (cases "to_double (r * p)") (simp_all add: number_sub_def number_neg_def)
  show ?thesis
    unfolding q using s assms(3)
    by (cases "number_sub (number_mul (Finite r) (Finite p)) (Finite q)") simp_all
qed

text \<open>With an edge that is not positive the full Kelly fraction is not positive.\<close>

lemma fullKelly_nonpos:
  assumes "0 < p" "p < 1" "0 < r" "r * p - (1 - p) \<le> 0"
  shows "\<exists>s. - 1 \<le> s \<and> s \<le> 0
           \<and> number_div (number_sub (number_mul (Finite r) (Finite p))
                 (number_sub (Finite 1) (Finite p))) (Finite r) = to_double (s / r)"
proof -
  have q: "number_sub (Finite 1) (Finite p) = Finite (nearest (1 - p))"
    "0 \<le> nearest (1 - p)" "nearest (1 - p) \<le> 1"
    using loss_probability [OF assms(1,2)] by simp_all
  have rp: "0 \<le> r * p" "r * p \<le> 1 - p" "r * p \<le> 1"
    using assms by simp_all
  have a: "to_double (r * p) = Finite (nearest (r * p))" "0 \<le> nearest (r * p)"
    using to_double_small [of 0 "r * p" 1] rp by (simp_all add: nearest_1)
  have an: "nearest (r * p) \<le> nearest (1 - p)" using rp(2) by (rule nearest_mono)
  define d where "d = nearest (r * p) - nearest (1 - p)"
  have d: "- 1 \<le> d" "d \<le> 0" using an a(2) q(3) by (simp_all add: d_def)
  have m1: "nearest (- 1) = - 1" using nearest_minus [of 1] by (simp add: nearest_1)
  have s: "to_double d = Finite (nearest d)" "- 1 \<le> nearest d" "nearest d \<le> 0"
    using to_double_small [of "- 1" d 0] d m1 by simp_all
  have "number_sub (number_mul (Finite r) (Finite p)) (Finite (nearest (1 - p)))
          = Finite (nearest d)"
    by (simp add: number_sub_def number_neg_def a(1) d_def [symmetric] s(1))
  then have "number_div (number_sub (number_mul (Finite r) (Finite p))
                 (number_sub (Finite 1) (Finite p))) (Finite r) = to_double (nearest d / r)"
    unfolding q(1) using assms(3) by simp
  then show ?thesis using s(2,3) by blast
qed

lemma product_nonpos:
  assumes "x = NegInfinity \<or> (\<exists>v. x = Finite v \<and> v \<le> 0)" "0 \<le> k" "x \<noteq> NegInfinity \<or> 0 < k"
  shows "number_mul x (Finite k) = NegInfinity \<or> (\<exists>v. number_mul x (Finite k) = Finite v \<and> v \<le> 0)"
proof (cases x)
  case (Finite v)
  then have "v * k \<le> 0" using assms(1,2) by (simp add: mult_le_0_iff)
  then show ?thesis using Finite to_double_nonpos by simp
next
  case NegInfinity
  then show ?thesis using assms(3) by (simp add: number_sign_def)
qed (use assms(1) in simp_all)

lemma Math_max_nonpos:
  "x = NegInfinity \<or> (\<exists>v. x = Finite v \<and> v \<le> 0) \<Longrightarrow> Math_max (Finite 0) x = Finite 0"
  by (cases x) auto

lemma Math_max_not_NaN:
  "x \<noteq> NaN \<Longrightarrow>
     Math_max (Finite 0) x = PosInfinity \<or> (\<exists>v. Math_max (Finite 0) x = Finite v \<and> 0 \<le> v)"
  by (cases x) auto

lemma Math_min_cap:
  "a = PosInfinity \<or> (\<exists>v. a = Finite v \<and> 0 \<le> v) \<Longrightarrow> 0 \<le> c \<Longrightarrow>
     \<exists>f. Math_min a (Finite c) = Finite f \<and> 0 \<le> f \<and> f \<le> c"
  by (cases a) auto

text \<open>The last stage: a fraction between 0 and 1 becomes whole basis points.\<close>

lemma basis_points:
  assumes "0 \<le> f" "f \<le> c" "c \<le> 1"
  shows "BigInt_of_number (Math_floor (number_mul (Finite f) (Finite 10000)))
           = Inr \<lfloor>nearest (f * 10000)\<rfloor>
         \<and> 0 \<le> \<lfloor>nearest (f * 10000)\<rfloor>
         \<and> \<lfloor>nearest (f * 10000)\<rfloor> \<le> \<lfloor>nearest (c * 10000)\<rfloor>
         \<and> \<lfloor>nearest (c * 10000)\<rfloor> \<le> 10000"
proof -
  have f: "to_double (f * 10000) = Finite (nearest (f * 10000))" "0 \<le> nearest (f * 10000)"
    using to_double_small [of 0 "f * 10000" 10000] assms by (simp_all add: nearest_10000)
  have "nearest (f * 10000) \<le> nearest (c * 10000)" using assms(2) by (intro nearest_mono) simp
  then have m: "\<lfloor>nearest (f * 10000)\<rfloor> \<le> \<lfloor>nearest (c * 10000)\<rfloor>" by (rule floor_mono)
  have "nearest (c * 10000) \<le> nearest 10000" using assms(3) by (intro nearest_mono) simp
  then have "\<lfloor>nearest (c * 10000)\<rfloor> \<le> \<lfloor>10000::real\<rfloor>"
    unfolding nearest_10000 by (rule floor_mono)
  then have c: "\<lfloor>nearest (c * 10000)\<rfloor> \<le> 10000" by simp
  show ?thesis using f m c by (simp add: Math_floor_def BigInt_of_number_def)
qed

text \<open>
  With an edge that is not positive the size is zero, provided the payoff ratio is at least
  1 (so that the division cannot overflow) or the Kelly fraction is positive.
\<close>

lemma kelly_zero_edge:
  assumes "0 < winProbability ps" "winProbability ps < 1" "0 < winLossRatio ps"
    and "winLossRatio ps * winProbability ps - (1 - winProbability ps) \<le> 0"
    and "0 \<le> kellyFraction_of ps" "0 \<le> maxPositionPercent_of ps"
    and "1 \<le> winLossRatio ps \<or> 0 < kellyFraction_of ps"
  shows "calculateKellyCriterion ps = Inr 0"
proof -
  define p where "p = winProbability ps"
  define r where "r = winLossRatio ps"
  define fullKelly where "fullKelly = number_div
           (number_sub (number_mul (Finite r) (Finite p)) (number_sub (Finite 1) (Finite p)))
           (Finite r)"
  define finalFraction where "finalFraction = Math_min
           (Math_max (Finite 0) (number_mul fullKelly (Finite (kellyFraction_of ps))))
           (Finite (maxPositionPercent_of ps))"
  obtain s where s: "- 1 \<le> s" "s \<le> 0" "fullKelly = to_double (s / r)"
    using fullKelly_nonpos [of p r] assms(1-4) unfolding p_def r_def fullKelly_def by blast
  have sr: "s / r \<le> 0" using s(2) assms(3) by (simp add: r_def divide_le_0_iff)
  have fk: "fullKelly = NegInfinity \<or> (\<exists>v. fullKelly = Finite v \<and> v \<le> 0)"
    unfolding s(3) using sr by (rule to_double_nonpos)
  have fin: "fullKelly \<noteq> NegInfinity \<or> 0 < kellyFraction_of ps"
  proof (cases "1 \<le> r")
    case True
    then have "s * r \<le> s * 1" using s(2) by (intro mult_left_mono_neg) simp_all
    then have "s \<le> s / r" using True by (simp add: pos_le_divide_eq)
    then have "- 1 \<le> s / r" using s(1) by simp
    then have "to_double (s / r) = Finite (nearest (s / r))"
      using to_double_small [of "- 1" "s / r" 0] sr nearest_minus [of 1]
      by (simp add: nearest_1)
    then show ?thesis by (simp add: s(3))
  next
    case False
    then show ?thesis using assms(7) by (simp add: r_def)
  qed
  have "Math_max (Finite 0) (number_mul fullKelly (Finite (kellyFraction_of ps))) = Finite 0"
    by (intro Math_max_nonpos product_nonpos fk assms(5) fin)
  then have "finalFraction = Finite 0"
    using assms(6) by (simp add: finalFraction_def)
  then show ?thesis
    using kelly_stages [OF assms(1-3), of fullKelly finalFraction]
    by (simp add: fullKelly_def finalFraction_def p_def r_def Math_floor_def
        BigInt_of_number_def bigint_div_def)
qed

text \<open>
  The full Kelly fraction is finite when the payoff ratio lies between the smallest normal
  double and \<open>2 ^ 1023\<close>: neither the product \<open>r * p\<close> nor the division by \<open>r\<close> overflows.
\<close>

lemma nearest_2_1023: "nearest (2 ^ 1023) = 2 ^ 1023"
  by (subst nearest_eval [of 1023]) (simp_all add: nearest_eval_simps)

lemma to_double_range:
  assumes "- (2 ^ 1023) \<le> x" "x \<le> 2 ^ 1023"
  shows "to_double x = Finite (nearest x)"
proof -
  have "nearest (- (2 ^ 1023)) = - (2 ^ 1023)"
    using nearest_minus [of "2 ^ 1023"] by (simp only: nearest_2_1023)
  then have "- (2 ^ 1023) \<le> nearest x \<and> nearest x \<le> 2 ^ 1023"
    by (intro nearest_between assms nearest_2_1023)
  then have "\<bar>nearest x\<bar> \<le> 2 ^ 1023" by linarith
  also have "\<dots> < (2::real) ^ 1024" by simp
  finally show ?thesis by (rule to_double_finite)
qed

lemma fullKelly_finite:
  assumes "0 < p" "p < 1" "1 / 2 ^ 1022 \<le> r" "r \<le> 2 ^ 1023"
  shows "\<exists>v. number_div (number_sub (number_mul (Finite r) (Finite p))
                 (number_sub (Finite 1) (Finite p))) (Finite r) = Finite v"
proof -
  define M :: real where "M = 2 ^ 1023"
  have M: "nearest M = M" "1 \<le> M" "r \<le> M" "1 / r \<le> M"
  proof -
    show "nearest M = M" unfolding M_def by (rule nearest_2_1023)
    show "1 \<le> M" unfolding M_def by simp
    show "r \<le> M" unfolding M_def by (rule assms(4))
    have "0 < r" using assms(3) by (rule less_le_trans [rotated]) simp
    moreover have "1 \<le> r * 2 ^ 1022" using assms(3) by (simp add: pos_divide_le_eq)
    ultimately have "1 / r \<le> 2 ^ 1022" by (simp add: pos_divide_le_eq mult.commute)
    also have "\<dots> \<le> M" unfolding M_def by simp
    finally show "1 / r \<le> M" .
  qed
  have range: "to_double x = Finite (nearest x)" if "- M \<le> x" "x \<le> M" for x
    using that unfolding M_def by (rule to_double_range)
  have r0: "0 < r" using assms(3) by (rule less_le_trans [rotated]) simp
  define B where "B = (if 1 \<le> r then M else 1)"
  have B: "nearest B = B" "1 \<le> B" "B \<le> M" "r * p \<le> B" "B / r \<le> M"
  proof -
    show "nearest B = B" by (simp add: B_def M(1) nearest_1)
    show "1 \<le> B" by (simp add: B_def M(2))
    show "B \<le> M" by (simp add: B_def M(2))
    have "r * p \<le> r * 1" using assms(2) r0 by (intro mult_left_mono) simp_all
    then show "r * p \<le> B" using M(3) by (simp add: B_def)
    show "B / r \<le> M"
    proof (cases "1 \<le> r")
      case True
      then have "M / r \<le> M / 1" using M(2) by (intro divide_left_mono) simp_all
      then show ?thesis using True by (simp add: B_def)
    next
      case False
      then show ?thesis using M(4) by (simp add: B_def)
    qed
  qed
  have q: "number_sub (Finite 1) (Finite p) = Finite (nearest (1 - p))"
    "0 \<le> nearest (1 - p)" "nearest (1 - p) \<le> 1"
    using loss_probability [OF assms(1,2)] by simp_all
  have rp: "0 \<le> r * p" using assms(1) r0 by simp
  have a: "to_double (r * p) = Finite (nearest (r * p))"
    using rp B(3,4) M(2) by (intro range) linarith+
  have ab: "0 \<le> nearest (r * p) \<and> nearest (r * p) \<le> B"
    by (intro nearest_between rp B(4) nearest_0 B(1))
  define d where "d = nearest (r * p) - nearest (1 - p)"
  have d: "- 1 \<le> d" "d \<le> B" using ab q(2,3) by (simp_all add: d_def)
  have m1: "nearest (- 1) = - 1" using nearest_minus [of 1] by (simp add: nearest_1)
  have nd: "- 1 \<le> nearest d \<and> nearest d \<le> B"
    by (intro nearest_between d m1 B(1))
  have s: "to_double d = Finite (nearest d)"
    using d B(3) M(2) by (intro range) linarith+
  have "\<bar>nearest d\<bar> \<le> B" using nd B(2) by linarith
  then have "\<bar>nearest d\<bar> / r \<le> B / r" using r0 by (intro divide_right_mono) simp_all
  then have "\<bar>nearest d / r\<bar> \<le> M" using B(5) r0 by simp
  then have t: "to_double (nearest d / r) = Finite (nearest (nearest d / r))"
    by (intro range) linarith+
  have "number_sub (number_mul (Finite r) (Finite p)) (Finite (nearest (1 - p)))
          = Finite (nearest d)"
    by (simp add: number_sub_def number_neg_def a d_def [symmetric] s)
  then have "number_div (number_sub (number_mul (Finite r) (Finite p))
                 (number_sub (Finite 1) (Finite p))) (Finite r)
               = Finite (nearest (nearest d / r))"
    unfolding q(1) using r0 t by simp
  then show ?thesis by blast
qed



text \<open>Running \<open>calculateKellyCriterion\<close> on a given input, one operation at a time.\<close>

lemma kelly_eval:
  assumes "winProbability ps = p" "winLossRatio ps = r" "0 < p" "p < 1" "0 < r"
    and "number_sub (Finite 1) (Finite p) = q"
    and "number_mul (Finite r) (Finite p) = a"
    and "number_sub a q = d"
    and "number_div d (Finite r) = fk"
    and "number_mul fk (Finite (kellyFraction_of ps)) = pr"
    and "Math_min (Math_max (Finite 0) pr) (Finite (maxPositionPercent_of ps)) = ff"
    and "number_mul ff (Finite 10000) = sc"
  shows "calculateKellyCriterion ps =
           (case BigInt_of_number (Math_floor sc) of
              Inl err \<Rightarrow> Inl err
            | Inr basisPoints \<Rightarrow> Inr (bigint_div (bankroll ps * basisPoints) 10000))"
  using assms by (simp add: calculateKellyCriterion_def Let_def)


text \<open>
  The rounding is visible in the result.  With the double \<open>0.35\<close> as win probability,
  payoff ratio 2, half Kelly and the default cap, the fraction computed is
  \<open>0.012499999999999983\<close>, which makes 124 basis points where exact arithmetic on the
  decimal inputs would make 125.
\<close>

lemma kelly_rounding:
  "calculateKellyCriterion kelly_rounding_example = Inr 124"
proof -
  have n1: "nearest (1 - 3152519739159347 / 2 ^ 53) = 5854679515581645 / 2 ^ 53"
    by (subst nearest_eval [of "- 1"]) (simp_all add: nearest_eval_simps)
  have n2: "nearest (2 * (3152519739159347 / 2 ^ 53)) = 3152519739159347 / 2 ^ 52"
    by (subst nearest_eval [of "- 1"]) (simp_all add: nearest_eval_simps)
  have n3: "nearest (3152519739159347 / 2 ^ 52 - 5854679515581645 / 2 ^ 53)
              = 450359962737049 / 2 ^ 53"
    by (subst nearest_eval [of "- 5"]) (simp_all add: nearest_eval_simps)
  have n4: "nearest (450359962737049 / 2 ^ 53 / 2) = 450359962737049 / 2 ^ 54"
    by (subst nearest_eval [of "- 6"]) (simp_all add: nearest_eval_simps)
  have n5: "nearest (450359962737049 / 2 ^ 54 * (1 / 2)) = 450359962737049 / 2 ^ 55"
    by (subst nearest_eval [of "- 7"]) (simp_all add: nearest_eval_simps)
  have n6: "nearest (450359962737049 / 2 ^ 55 * 10000) = 2199023255551997 / 2 ^ 44"
    by (subst nearest_eval [of 6]) (simp_all add: nearest_eval_simps)
  have c: "nearest (1 / 10) = 3602879701896397 / 2 ^ 55"
    by (subst nearest_eval [of "- 4"]) (simp_all add: nearest_eval_simps)
  have q: "number_sub (Finite 1) (Finite (3152519739159347 / 2 ^ 53))
             = Finite (5854679515581645 / 2 ^ 53)"
    by (rule number_sub_eval) (use n1 in simp_all)
  have a: "number_mul (Finite 2) (Finite (3152519739159347 / 2 ^ 53))
             = Finite (3152519739159347 / 2 ^ 52)"
    by (rule number_mul_eval) (use n2 in simp_all)
  have d: "number_sub (Finite (3152519739159347 / 2 ^ 52)) (Finite (5854679515581645 / 2 ^ 53))
             = Finite (450359962737049 / 2 ^ 53)"
    by (rule number_sub_eval) (use n3 in simp_all)
  have fk: "number_div (Finite (450359962737049 / 2 ^ 53)) (Finite 2)
              = Finite (450359962737049 / 2 ^ 54)"
    by (rule number_div_eval) (use n4 in simp_all)
  have pr: "number_mul (Finite (450359962737049 / 2 ^ 54))
              (Finite (kellyFraction_of kelly_rounding_example))
              = Finite (450359962737049 / 2 ^ 55)"
    by (rule number_mul_eval)
       (use n5 in \<open>simp_all add: kelly_rounding_example_def kellyFraction_of_def\<close>)
  have ff: "Math_min (Math_max (Finite 0) (Finite (450359962737049 / 2 ^ 55)))
              (Finite (maxPositionPercent_of kelly_rounding_example))
              = Finite (450359962737049 / 2 ^ 55)"
    using c by (simp add: kelly_rounding_example_def maxPositionPercent_of_def)
  have sc: "number_mul (Finite (450359962737049 / 2 ^ 55)) (Finite 10000)
              = Finite (2199023255551997 / 2 ^ 44)"
    by (rule number_mul_eval) (use n6 in simp_all)
  show ?thesis
    by (subst kelly_eval [OF _ _ _ _ _ q a d fk pr ff sc])
       (simp_all add: kelly_rounding_example_def Math_floor_def BigInt_of_number_def
          bigint_div_def)
qed


text \<open>
  C7.  When the win probability is outside the open interval (0,1) or the payoff ratio is
  not positive, \<open>calculateKellyCriterion\<close> throws; it returns no value.
\<close>

theorem kelly_domain_error:
  assumes "winProbability ps \<le> 0 \<or> 1 \<le> winProbability ps \<or> winLossRatio ps \<le> 0"
  shows "calculateKellyCriterion ps =
           Inl (Error (if winProbability ps \<le> 0 \<or> 1 \<le> winProbability ps
                       then ''Win probability must be between 0 and 1''
                       else ''Win/loss ratio must be positive''))"
  using assms by (auto simp add: calculateKellyCriterion_def)

theorem kelly_domain_error_witness:
  "(winProbability kelly_invalid_example \<le> 0 \<or> 1 \<le> winProbability kelly_invalid_example
      \<or> winLossRatio kelly_invalid_example \<le> 0)
   \<and> calculateKellyCriterion kelly_invalid_example
       = Inl (Error ''Win probability must be between 0 and 1'')"
  using kelly_domain_error [of kelly_invalid_example]
  by (simp add: kelly_invalid_example_def)

section \<open>Stop-loss tracker\<close>

lemmas stop_loss_defs = updatePrice_def StopLossManager_new_def calculateStopLossPrice_def
  calculateTakeProfitPrice_def calculateTrailingStopPrice_def truthy_number_def
  bigint_div_def exit_with_def no_exit_def Let_def

text \<open>
  C3.  The tracker of the test suite (entry 1000, stop 5%, take 15%, trailing 10%) is
  expected to report \<open>STOP_LOSS\<close> at 940, \<open>TAKE_PROFIT\<close> at 1151, \<open>TRAILING_STOP\<close> at 1079
  after 1200, and nothing at 1050.  The code multiplies the percentage by 100 and divides
  by 10000, so the stop sits at 1000 and the take-profit at 1001: it reports \<open>STOP_LOSS\<close>
  at 940 and \<open>TAKE_PROFIT\<close> at 1151, but also \<open>TAKE_PROFIT\<close> at 1200, at 1079 after 1200,
  and at 1050 on a fresh tracker.
\<close>

theorem stop_loss_manager_examples:
  "calculateStopLossPrice tracker_trailing = 1000
   \<and> calculateTakeProfitPrice tracker_trailing = 1001
   \<and> snd (updatePrice tracker_plain 940) = exit_with ''STOP_LOSS''
   \<and> snd (updatePrice tracker_plain 1151) = exit_with ''TAKE_PROFIT''
   \<and> snd (updatePrice tracker_trailing 1200) = exit_with ''TAKE_PROFIT''
   \<and> snd (updatePrice (fst (updatePrice tracker_trailing 1200)) 1079) = exit_with ''TAKE_PROFIT''
   \<and> snd (updatePrice tracker_plain 1050) = exit_with ''TAKE_PROFIT''
   \<and> snd (updatePrice tracker_trailing 1050) = exit_with ''TAKE_PROFIT''"
  by (simp add: tracker_plain_def tracker_trailing_def stop_loss_defs)

lemma updatePrice_inactive: "\<not> isActive m \<Longrightarrow> updatePrice m p = (m, no_exit)"
  by (simp add: updatePrice_def)

lemma updatePrices_inactive:
  "\<not> isActive m \<Longrightarrow> updatePrices m ps = (m, replicate (length ps) no_exit)"
  by (induction ps) (simp_all add: updatePrice_inactive)

lemma updatePrice_isActive: "isActive (fst (updatePrice m p)) = isActive m"
  by (simp add: updatePrice_def Let_def)

text \<open>A second call with the same price finds the extremes already moved, makes the same
  comparisons, and so returns the same tracker and the same signal.\<close>

lemma updatePrice_repeat: "updatePrice (fst (updatePrice m p)) p = updatePrice m p"
  by (simp add: updatePrice_def calculateStopLossPrice_def calculateTakeProfitPrice_def
      calculateTrailingStopPrice_def Let_def)

text \<open>
  C4, as the code has it.  What is terminal is \<open>deactivate\<close>: after it, every \<open>updatePrice\<close>
  leaves the tracker as it is and returns "no exit".  \<open>updatePrice\<close> itself never changes
  the active flag, and a second call with the same price returns what the first returned:
  a tracker that has signalled an exit at a price signals the exit again, with the same
  reason, when it is asked again at that price.
\<close>

theorem deactivated_is_terminal:
  "updatePrices (deactivate m) ps = (deactivate m, replicate (length ps) no_exit)
   \<and> isActive (fst (updatePrice m p)) = isActive m
   \<and> updatePrice (fst (updatePrice m p)) p = updatePrice m p
   \<and> (shouldExit (snd (updatePrice m p)) \<longrightarrow>
        shouldExit (snd (updatePrice (fst (updatePrice m p)) p))
        \<and> reason (snd (updatePrice (fst (updatePrice m p)) p)) = reason (snd (updatePrice m p)))"
  by (simp add: updatePrices_inactive updatePrice_isActive updatePrice_repeat deactivate_def)

theorem deactivated_is_terminal_witness:
  "shouldExit (snd (updatePrice tracker_plain 1151))
   \<and> shouldExit (snd (updatePrice (fst (updatePrice tracker_plain 1151)) 1151))
   \<and> reason (snd (updatePrice (fst (updatePrice tracker_plain 1151)) 1151)) = Some ''TAKE_PROFIT''
   \<and> updatePrices (deactivate tracker_plain) [940, 1151]
       = (deactivate tracker_plain, [no_exit, no_exit])"
proof -
  have s: "snd (updatePrice tracker_plain 1151) = exit_with ''TAKE_PROFIT''"
    by (simp add: tracker_plain_def stop_loss_defs)
  then have "shouldExit (snd (updatePrice tracker_plain 1151))"
    by (simp add: exit_with_def)
  then show ?thesis
    using deactivated_is_terminal [of tracker_plain "[940, 1151]" 1151] s
    by (simp add: exit_with_def)
qed

text \<open>C4 as stated fails: the tracker exits at 940 and, asked again, exits again.\<close>

theorem triggered_not_terminal_counterexample:
  "shouldExit (snd (updatePrice tracker_plain 940))
   \<and> shouldExit (snd (updatePrice (fst (updatePrice tracker_plain 940)) 940))
   \<and> reason (snd (updatePrice (fst (updatePrice tracker_plain 940)) 940)) = Some ''STOP_LOSS''"
  by (simp add: tracker_plain_def stop_loss_defs)


section \<open>Drawdown protector\<close>

lemma updateValue_peak:
  "peakValue (dd_state d) \<le> peakValue (dd_state (fst (updateValue now d v)))"
  by (simp add: updateValue_def Let_def triggerCooldown_def)

lemma apply_op_peak:
  "x \<noteq> ResetPeak \<Longrightarrow> peakValue (dd_state d) \<le> peakValue (dd_state (apply_drawdown_op d x))"
  by (cases x) (simp_all add: updateValue_peak)

text \<open>
  C9, as the code has it.  Over any sequence of \<open>updateValue\<close> and \<open>getState\<close> calls the
  stored peak never decreases.  (\<open>resetPeak\<close> sets the peak to the current value, which
  can be lower.)
\<close>

theorem peak_monotone_without_reset:
  "ResetPeak \<notin> set ops \<Longrightarrow>
     peakValue (dd_state d) \<le> peakValue (dd_state (run_drawdown_ops d ops))"
proof (induction ops arbitrary: d)
  case Nil
  then show ?case by simp
next
  case (Cons x xs)
  have "peakValue (dd_state d) \<le> peakValue (dd_state (apply_drawdown_op d x))"
    using Cons.prems by (intro apply_op_peak) auto
  also have "\<dots> \<le> peakValue (dd_state (run_drawdown_ops (apply_drawdown_op d x) xs))"
    using Cons.prems by (intro Cons.IH) auto
  finally show ?case by simp
qed

lemmas drawdown_defs = DrawdownProtector_new_def test_drawdown_config_def updateValue_def
  Let_def triggerCooldown_def resetPeak_def calculateDrawdown_def calculateDailyDrawdown_def

theorem peak_monotone_without_reset_witness:
  "ResetPeak \<notin> set [UpdateValue 1 11000, GetState, UpdateValue 2 9950]
   \<and> peakValue (dd_state (DrawdownProtector_new 0 test_drawdown_config 10000)) = 10000
   \<and> peakValue (dd_state (run_drawdown_ops (DrawdownProtector_new 0 test_drawdown_config 10000)
        [UpdateValue 1 11000, GetState, UpdateValue 2 9950])) = 11000
   \<and> peakValue (dd_state (DrawdownProtector_new 0 test_drawdown_config 10000))
       \<le> peakValue (dd_state (run_drawdown_ops (DrawdownProtector_new 0 test_drawdown_config 10000)
            [UpdateValue 1 11000, GetState, UpdateValue 2 9950]))"
  using peak_monotone_without_reset
    [of "[UpdateValue 1 11000, GetState, UpdateValue 2 9950]"
        "DrawdownProtector_new 0 test_drawdown_config 10000"]
  by (simp add: drawdown_defs)

text \<open>C9 as stated fails: after the value fell to 9950, \<open>resetPeak\<close> lowers the peak from
  10000 to 9950.\<close>

theorem peak_decreases_counterexample:
  "peakValue (dd_state (run_drawdown_ops (DrawdownProtector_new 0 test_drawdown_config 10000)
       [UpdateValue 1 9950])) = 10000
   \<and> peakValue (dd_state (run_drawdown_ops (DrawdownProtector_new 0 test_drawdown_config 10000)
       [UpdateValue 1 9950, ResetPeak])) = 9950"
  by (simp add: drawdown_defs)

section \<open>Construction of an agent\<close>

lemma foldl_add_sum_list: "foldl (\<lambda>a b. a + b) (a::real) xs = a + sum_list xs"
  by (induction xs arbitrary: a) simp_all

lemma balancer_rejects:
  "0.01 < \<bar>sum_list (map snd allocations) - 1\<bar> \<Longrightarrow>
     PortfolioBalancer_new allocations threshold slippage
       = Inl (Error ''Target allocations must sum to 1.0'')"
  by (simp add: PortfolioBalancer_new_def Let_def foldl_add_sum_list)

text \<open>
  C2.  The constructor of \<open>BaseAgent\<close> hands an empty allocation map to the constructor of
  \<open>PortfolioBalancer\<close>, which throws "Target allocations must sum to 1.0" because the
  empty map sums to 0.  So constructing a \<open>BaseAgent\<close> throws that error for every
  configuration, wallet and logger, and so does constructing a \<open>ConservativeBot\<close>, whose
  constructor calls the base constructor first.
\<close>

theorem base_agent_constructor_throws:
  "PortfolioBalancer_new [] threshold slippage
     = Inl (Error ''Target allocations must sum to 1.0'')
   \<and> BaseAgent_new now cfg w logger = Inl (Error ''Target allocations must sum to 1.0'')
   \<and> ConservativeBot_new now c = Inl (Error ''Target allocations must sum to 1.0'')"
  by (simp add: PortfolioBalancer_new_def BaseAgent_new_def ConservativeBot_new_def Let_def)


section \<open>Whale detector\<close>

lemmas whale_defs = analyzeOrder_def collected_alerts_def calculatePriceImpact_def
  whale_order_alert_def price_impact_alert_def whale_trade_alert_def WhaleDetector_new_def
  test_detector_def test_order_def storeOrder_def Let_def

lemma analyzeOrder_above:
  assumes "volumeThreshold w < order_amount order"
  shows "snd (analyzeOrder L now w order liq) = Some (whale_order_alert L now order liq)"
  using assms by (simp add: analyzeOrder_def collected_alerts_def Let_def)

lemma analyzeOrder_below:
  assumes "order_amount order < volumeThreshold w"
  shows "snd (analyzeOrder L now w order liq) =
     (if number_le (Finite (priceImpactThreshold w))
           (calculatePriceImpact (order_amount order) liq)
      then Some (price_impact_alert L now order (calculatePriceImpact (order_amount order) liq))
      else if (case volume24h w (order_marketId order) of None \<Rightarrow> 0 | Some v \<Rightarrow> v) > 0
            \<and> number_lt (Finite (nearest 0.1))
                (number_div (Number_of_bigint (order_amount order))
                   (Number_of_bigint (case volume24h w (order_marketId order) of
                                        None \<Rightarrow> 0 | Some v \<Rightarrow> v)))
      then Some (whale_trade_alert L now order
                (number_div (Number_of_bigint (order_amount order))
                   (Number_of_bigint (case volume24h w (order_marketId order) of
                                        None \<Rightarrow> 0 | Some v \<Rightarrow> v))))
      else None)"
  using assms by (simp add: analyzeOrder_def collected_alerts_def Let_def)

text \<open>The doubles of the examples.  The amounts are representable; of the quotients,
  only \<open>1/2\<close> is.\<close>

lemma Number_of_bigint_eval:
  "nearest (of_int b) = y \<Longrightarrow> \<bar>y\<bar> < 2 ^ 1024 \<Longrightarrow> Number_of_bigint b = Finite y"
  by (simp add: Number_of_bigint_def to_double_def)

lemma Number_1e16: "Number_of_bigint 10000000000000000 = Finite 10000000000000000"
  by (rule Number_of_bigint_eval, subst nearest_eval [of 53])
     (simp_all add: nearest_eval_simps)

lemma Number_1e17: "Number_of_bigint 100000000000000000 = Finite 100000000000000000"
  by (rule Number_of_bigint_eval, subst nearest_eval [of 56])
     (simp_all add: nearest_eval_simps)

lemma Number_1e18: "Number_of_bigint 1000000000000000000 = Finite 1000000000000000000"
  by (rule Number_of_bigint_eval, subst nearest_eval [of 59])
     (simp_all add: nearest_eval_simps)

lemma Number_2e18: "Number_of_bigint 2000000000000000000 = Finite 2000000000000000000"
  by (rule Number_of_bigint_eval, subst nearest_eval [of 60])
     (simp_all add: nearest_eval_simps)

lemma Number_1e19: "Number_of_bigint 10000000000000000000 = Finite 10000000000000000000"
  by (rule Number_of_bigint_eval, subst nearest_eval [of 63])
     (simp_all add: nearest_eval_simps)

text \<open>\<open>4900000000000000001\<close> is not representable: it is rounded to \<open>4.9e18\<close>.\<close>

lemma Number_49e17_1: "Number_of_bigint 4900000000000000001 = Finite 4900000000000000000"
  by (rule Number_of_bigint_eval, subst nearest_eval [of 62])
     (simp_all add: nearest_eval_simps)

lemma nearest_1_50: "nearest (1 / 50) = 5764607523034235 / 288230376151711744"
  by (subst nearest_eval [of "- 6"]) (simp_all add: nearest_eval_simps)

lemma nearest_1_20: "nearest (1 / 20) = 3602879701896397 / 72057594037927936"
  by (subst nearest_eval [of "- 5"]) (simp_all add: nearest_eval_simps)

lemma nearest_1_10: "nearest (1 / 10) = 3602879701896397 / 36028797018963968"
  by (subst nearest_eval [of "- 4"]) (simp_all add: nearest_eval_simps)

lemma impact_2e18_1e19:
  "calculatePriceImpact 2000000000000000000 10000000000000000000
     = Finite (6004799503160661 / 36028797018963968)"
proof -
  have s: "nearest (10000000000000000000 + 2000000000000000000) = 12000000000000000000"
    by (subst nearest_eval [of 63]) (simp_all add: nearest_eval_simps)
  have q: "nearest (2000000000000000000 / 12000000000000000000)
             = 6004799503160661 / 36028797018963968"
    by (subst nearest_eval [of "- 3"]) (simp_all add: nearest_eval_simps)
  have "number_add (Finite 10000000000000000000) (Finite 2000000000000000000)
          = Finite 12000000000000000000"
    by (rule number_add_eval) (use s in simp_all)
  moreover have "number_div (Finite 2000000000000000000) (Finite 12000000000000000000)
          = Finite (6004799503160661 / 36028797018963968)"
    by (rule number_div_eval) (use q in simp_all)
  ultimately show ?thesis
    by (simp only: calculatePriceImpact_def Number_2e18 Number_1e19) simp
qed

lemma impact_1e16_1e19:
  "calculatePriceImpact 10000000000000000 10000000000000000000
     = Finite (1151769734871975 / 1152921504606846976)"
proof -
  have s: "nearest (10000000000000000000 + 10000000000000000) = 10010000000000000000"
    by (subst nearest_eval [of 63]) (simp_all add: nearest_eval_simps)
  have q: "nearest (10000000000000000 / 10010000000000000000)
             = 1151769734871975 / 1152921504606846976"
    by (subst nearest_eval [of "- 10"]) (simp_all add: nearest_eval_simps)
  have "number_add (Finite 10000000000000000000) (Finite 10000000000000000)
          = Finite 10010000000000000000"
    by (rule number_add_eval) (use s in simp_all)
  moreover have "number_div (Finite 10000000000000000) (Finite 10010000000000000000)
          = Finite (1151769734871975 / 1152921504606846976)"
    by (rule number_div_eval) (use q in simp_all)
  ultimately show ?thesis
    by (simp only: calculatePriceImpact_def Number_1e16 Number_1e19) simp
qed

lemma impact_1e17_1e19:
  "calculatePriceImpact 100000000000000000 10000000000000000000
     = Finite (5707532201023995 / 576460752303423488)"
proof -
  have s: "nearest (10000000000000000000 + 100000000000000000) = 10100000000000000000"
    by (subst nearest_eval [of 63]) (simp_all add: nearest_eval_simps)
  have q: "nearest (100000000000000000 / 10100000000000000000)
             = 5707532201023995 / 576460752303423488"
    by (subst nearest_eval [of "- 7"]) (simp_all add: nearest_eval_simps)
  have "number_add (Finite 10000000000000000000) (Finite 100000000000000000)
          = Finite 10100000000000000000"
    by (rule number_add_eval) (use s in simp_all)
  moreover have "number_div (Finite 100000000000000000) (Finite 10100000000000000000)
          = Finite (5707532201023995 / 576460752303423488)"
    by (rule number_div_eval) (use q in simp_all)
  ultimately show ?thesis
    by (simp only: calculatePriceImpact_def Number_1e17 Number_1e19) simp
qed

lemma impact_1e18_1e18:
  "calculatePriceImpact 1000000000000000000 1000000000000000000 = Finite (1 / 2)"
proof -
  have s: "nearest (1000000000000000000 + 1000000000000000000) = 2000000000000000000"
    by (subst nearest_eval [of 60]) (simp_all add: nearest_eval_simps)
  have q: "nearest (1000000000000000000 / 2000000000000000000) = 1 / 2"
    by (subst nearest_eval [of "- 1"]) (simp_all add: nearest_eval_simps)
  have "number_add (Finite 1000000000000000000) (Finite 1000000000000000000)
          = Finite 2000000000000000000"
    by (rule number_add_eval) (use s in simp_all)
  moreover have "number_div (Finite 1000000000000000000) (Finite 2000000000000000000)
          = Finite (1 / 2)"
    by (rule number_div_eval) (use q in simp_all)
  ultimately show ?thesis
    by (simp only: calculatePriceImpact_def Number_1e18) simp
qed

text \<open>An impact that reaches the threshold through rounding: the liquidity
  \<open>4900000000000000001\<close> is read as \<open>4.9e18\<close>, the sum is \<open>5e18\<close>, and the quotient is the
  double \<open>0.02\<close>, where the exact quotient is below \<open>0.02\<close>.\<close>

lemma impact_1e17_49e17_1:
  "calculatePriceImpact 100000000000000000 4900000000000000001
     = Finite (5764607523034235 / 288230376151711744)"
proof -
  have s: "nearest (4900000000000000000 + 100000000000000000) = 5000000000000000000"
    by (subst nearest_eval [of 62]) (simp_all add: nearest_eval_simps)
  have q: "nearest (100000000000000000 / 5000000000000000000)
             = 5764607523034235 / 288230376151711744"
    by (subst nearest_eval [of "- 6"]) (simp_all add: nearest_eval_simps)
  have "number_add (Finite 4900000000000000000) (Finite 100000000000000000)
          = Finite 5000000000000000000"
    by (rule number_add_eval) (use s in simp_all)
  moreover have "number_div (Finite 100000000000000000) (Finite 5000000000000000000)
          = Finite (5764607523034235 / 288230376151711744)"
    by (rule number_div_eval) (use q in simp_all)
  ultimately show ?thesis
    by (simp only: calculatePriceImpact_def Number_1e17 Number_49e17_1) simp
qed

lemma analyzeOrder_2e18_1e19:
  "snd (analyzeOrder L now test_detector (test_order 2000000000000000000) 10000000000000000000)
     = Some (whale_order_alert L now (test_order 2000000000000000000) 10000000000000000000)"
  by (rule analyzeOrder_above) (simp add: test_detector_def test_order_def WhaleDetector_new_def)

lemma analyzeOrder_1e16_1e19:
  "snd (analyzeOrder L now test_detector (test_order 10000000000000000) 10000000000000000000)
     = None"
  by (subst analyzeOrder_below)
     (simp_all add: test_detector_def test_order_def WhaleDetector_new_def
        impact_1e16_1e19 nearest_1_50)

lemma analyzeOrder_1e17_49e17_1:
  "snd (analyzeOrder L now test_detector (test_order 100000000000000000) 4900000000000000001)
     = Some (price_impact_alert L now (test_order 100000000000000000)
               (Finite (5764607523034235 / 288230376151711744)))"
  by (subst analyzeOrder_below)
     (simp_all add: test_detector_def test_order_def WhaleDetector_new_def
        impact_1e17_49e17_1 nearest_1_50)

text \<open>A share of the 24h volume that rounding brings down to the double \<open>0.1\<close>: the
  amount \<open>100000000000000001\<close> is read as \<open>1e17\<close>, a tenth of the recorded volume 1e18, and
  the comparison is strict.\<close>

lemma Number_1e17_1: "Number_of_bigint 100000000000000001 = Finite 100000000000000000"
  by (rule Number_of_bigint_eval, subst nearest_eval [of 56])
     (simp_all add: nearest_eval_simps)

lemma analyzeOrder_relative_rounding:
  "snd (analyzeOrder L now (updateVolume test_detector ''MARKET1'' 1000000000000000000)
          (test_order 100000000000000001) 10000000000000000000) = None"
proof -
  have s: "nearest (10000000000000000000 + 100000000000000000) = 10100000000000000000"
    by (subst nearest_eval [of 63]) (simp_all add: nearest_eval_simps)
  have q: "nearest (100000000000000000 / 10100000000000000000)
             = 5707532201023995 / 576460752303423488"
    by (subst nearest_eval [of "- 7"]) (simp_all add: nearest_eval_simps)
  have t: "nearest (100000000000000000 / 1000000000000000000)
             = 3602879701896397 / 36028797018963968"
    by (subst nearest_eval [of "- 4"]) (simp_all add: nearest_eval_simps)
  have "number_add (Finite 10000000000000000000) (Finite 100000000000000000)
          = Finite 10100000000000000000"
    by (rule number_add_eval) (use s in simp_all)
  moreover have "number_div (Finite 100000000000000000) (Finite 10100000000000000000)
          = Finite (5707532201023995 / 576460752303423488)"
    by (rule number_div_eval) (use q in simp_all)
  ultimately have i: "calculatePriceImpact 100000000000000001 10000000000000000000
          = Finite (5707532201023995 / 576460752303423488)"
    by (simp only: calculatePriceImpact_def Number_1e17_1 Number_1e19) simp
  have r: "number_div (Number_of_bigint 100000000000000001)
             (Number_of_bigint 1000000000000000000)
          = Finite (3602879701896397 / 36028797018963968)"
    unfolding Number_1e17_1 Number_1e18 by (rule number_div_eval) (use t in simp_all)
  show ?thesis
    by (subst analyzeOrder_below)
       (simp_all add: updateVolume_def test_detector_def test_order_def WhaleDetector_new_def
          i r nearest_1_50 nearest_1_10 number_lt_def)
qed

lemma collected_2e18_1e19:
  "collected_alerts L now test_detector (test_order 2000000000000000000) 10000000000000000000
     = [whale_order_alert L now (test_order 2000000000000000000) 10000000000000000000,
        price_impact_alert L now (test_order 2000000000000000000)
          (Finite (6004799503160661 / 36028797018963968))]"
  by (simp add: collected_alerts_def test_detector_def test_order_def WhaleDetector_new_def
      impact_2e18_1e19 nearest_1_50)





section \<open>Audit ledger\<close>

lemma flush_entries: "entries (flush now a) = entries a"
  by (simp add: flush_def Let_def split: option.splits)

lemma canonical_more:
  "canonical (e\<lparr>entry_hash := x\<rparr>) = canonical e"
  "canonical (e\<lparr>entry_signature := y\<rparr>) = canonical e"
  by (simp_all add: canonical_def)

lemma generateHash_more:
  "generateHash L (e\<lparr>entry_hash := x\<rparr>) = generateHash L e"
  "generateHash L (e\<lparr>entry_signature := y\<rparr>) = generateHash L e"
  by (simp_all add: generateHash_def canonical_more)

text \<open>What a successful \<open>log\<close> leaves behind.\<close>

lemma log_Inr:
  assumes "log L now a entry = (a', Inr stored)"
  shows "\<exists>h. generateHash L stored = Inr h \<and> entry_hash stored = Some h
             \<and> entries a' = entries a @ [stored]
             \<and> entry_type stored = entry_type entry \<and> entry_agent stored = entry_agent entry
             \<and> entry_data stored = entry_data entry"
proof -
  define full where "full = AuditEntryBase.extend
            (entry\<lparr>entry_timestamp :=
                      (if entry_timestamp entry \<noteq> 0 then entry_timestamp entry else now)\<rparr>)
            (AuditEntry.fields None None)"
  show ?thesis
  proof (cases "generateHash L full")
    case (Inl err)
    with assms show ?thesis by (simp add: log_def full_def)
  next
    case (Inr h)
    define signed where "signed = (case wallet_signer a of
        None \<Rightarrow> full\<lparr>entry_hash := Some h\<rparr>
      | Some sign \<Rightarrow> full\<lparr>entry_hash := Some h, entry_signature := Some (sign h)\<rparr>)"
    have st: "stored = signed"
      and a': "entries a' = entries a @ [signed]"
      using assms Inr
      by (auto simp add: log_def full_def[symmetric] Let_def signed_def[symmetric] flush_entries
          split: if_splits)
    have "generateHash L signed = Inr h" "entry_hash signed = Some h"
      using Inr by (simp_all add: signed_def generateHash_more split: option.splits)
    moreover have "entry_type signed = entry_type entry" "entry_agent signed = entry_agent entry"
      "entry_data signed = entry_data entry"
      by (simp_all add: signed_def full_def AuditEntryBase.defs split: option.splits)
    ultimately show ?thesis using st a' by simp
  qed
qed

text \<open>
  C10.  An entry appended by \<open>log\<close> verifies: \<open>verifyEntry\<close> returns true on it as stored.
  When the hash function is injective, replacing the payload of the stored entry by one
  whose canonical serialisation differs makes \<open>verifyEntry\<close> return false.
\<close>

theorem verify_roundtrip:
  assumes inj: "inj (keccak256 L)"
    and lg: "log L now a entry = (a', Inr stored)"
  shows "entries a' = entries a @ [stored]
     \<and> verifyEntry L stored = Inr True
     \<and> (\<forall>payload s s'.
           stringify L (canonical stored) = Inr s
           \<and> stringify L (canonical (stored\<lparr>entry_data := payload\<rparr>)) = Inr s'
           \<and> s' \<noteq> s
           \<longrightarrow> verifyEntry L (stored\<lparr>entry_data := payload\<rparr>) = Inr False)"
proof -
  from log_Inr [OF lg] obtain h where h: "generateHash L stored = Inr h"
    "entry_hash stored = Some h" "entries a' = entries a @ [stored]" by blast
  have v: "verifyEntry L stored = Inr True" using h by (simp add: verifyEntry_def)
  have m: "verifyEntry L (stored\<lparr>entry_data := payload\<rparr>) = Inr False"
    if "stringify L (canonical stored) = Inr s"
      "stringify L (canonical (stored\<lparr>entry_data := payload\<rparr>)) = Inr s'" "s' \<noteq> s"
    for payload s s'
  proof -
    have "h = keccak256 L s" using h(1) that(1) by (simp add: generateHash_def)
    moreover have "keccak256 L s' \<noteq> keccak256 L s"
      using inj that(3) by (simp add: inj_eq)
    ultimately show ?thesis using that(2) h(2) by (simp add: verifyEntry_def generateHash_def)
  qed
  show ?thesis using h(3) v m by blast
qed

lemmas sample_defs = sample_library_def sample_stringify_def int_text_def quote_def
  sample_logger_def

lemma decimal_1700000000000: "decimal 1700000000000 = ''1700000000000''"
  by (simp add: decimal.simps)

lemma log_test_entry:
  "log sample_library 1700000000001 sample_logger test_entry
     = (sample_logger\<lparr>entries := [stored_test_entry],
                       merkleTree := [json_text (canonical test_entry)]\<rparr>,
        Inr stored_test_entry)"
  by (simp add: log_def generateHash_def canonical_def test_entry_def sample_defs
      stored_test_entry_def shouldFlush_def flush_def AuditEntryBase.defs AuditEntry.defs
      Let_def decimal_1700000000000)

theorem verify_roundtrip_witness:
  "inj (keccak256 sample_library)
   \<and> snd (log sample_library 1700000000001 sample_logger test_entry) = Inr stored_test_entry
   \<and> verifyEntry sample_library stored_test_entry = Inr True
   \<and> verifyEntry sample_library (stored_test_entry\<lparr>entry_data := JObj [(''test'', JBool False)]\<rparr>)
       = Inr False"
proof -
  have i: "inj (keccak256 sample_library)"
    by (simp add: sample_library_def inj_def)
  have s: "stringify sample_library (canonical stored_test_entry)
             = Inr (json_text (canonical stored_test_entry))"
    "stringify sample_library
       (canonical (stored_test_entry\<lparr>entry_data := JObj [(''test'', JBool False)]\<rparr>))
     = Inr (json_text (canonical (stored_test_entry\<lparr>entry_data := JObj [(''test'', JBool False)]\<rparr>)))"
    by (simp_all add: canonical_def sample_defs stored_test_entry_def test_entry_def
        AuditEntryBase.defs AuditEntry.defs)
  have d: "json_text (canonical (stored_test_entry\<lparr>entry_data := JObj [(''test'', JBool False)]\<rparr>))
             \<noteq> json_text (canonical stored_test_entry)"
    by (simp add: canonical_def stored_test_entry_def test_entry_def AuditEntryBase.defs
        AuditEntry.defs sample_defs)
  from verify_roundtrip [OF i log_test_entry] s d i log_test_entry show ?thesis
    by simp
qed


section \<open>Decision pipeline\<close>

lemma checkForManipulation_logger:
  "checkForManipulation L now ag md = (ag2, al, b) \<Longrightarrow> auditLogger ag2 = auditLogger ag"
  by (auto simp add: checkForManipulation_def Let_def split: prod.splits option.splits if_splits)

lemma checkForManipulation_config:
  "checkForManipulation L now ag md = (ag2, al, b) \<Longrightarrow> config ag2 = config ag"
  by (auto simp add: checkForManipulation_def Let_def split: prod.splits option.splits if_splits)

text \<open>When the first three gates let the call through, the rest is steps 4 to 6.\<close>

lemma try_after_gates:
  assumes "updateValue now (drawdownProtector ag) (totalValue (portfolio ag)) = (protector, st)"
    and "canTrade st"
    and "healthy (checkHealth L (oracleMonitor ag))"
    and "checkForManipulation L now (ag\<lparr>drawdownProtector := protector\<rparr>) md
           = (ag2, None, blockTrade)"
  shows "processMarketData_try L now strategy ag md prediction
           = decide_and_validate L now strategy ag2 md prediction"
  using assms by (simp add: processMarketData_try_def)

lemma validate_domain_error:
  assumes "\<not> confidence d < minConfidenceThreshold (config ag)"
    and "confidence d \<le> 0 \<or> 1 \<le> confidence d"
  shows "validateWithRiskManagement L now ag d md
           = (ag, Inl (Error ''Win probability must be between 0 and 1''))"
  using assms by (auto simp add: validateWithRiskManagement_def calculateKellyCriterion_def)

lemma validate_zero_size:
  assumes "\<not> confidence d < minConfidenceThreshold (config ag)"
    and "0 < confidence d" "confidence d < 1"
    and "1.5 * confidence d - (1 - confidence d) \<le> 0"
    and "0 \<le> cfg_kellyFraction (config ag)" "0 \<le> cfg_maxPositionPercent (config ag)"
  shows "validateWithRiskManagement L now ag d md = (ag, Inr None)"
proof -
  have "calculateKellyCriterion
               \<lparr>bankroll = totalValue (portfolio ag), winProbability = confidence d,
                winLossRatio = 1.5, kellyFraction = Some (cfg_kellyFraction (config ag)),
                maxPositionPercent = Some (cfg_maxPositionPercent (config ag))\<rparr> = Inr 0"
    using assms(2-6)
    by (intro kelly_zero_edge) (simp_all add: kellyFraction_of_def maxPositionPercent_of_def)
  then show ?thesis
    using assms(1) by (simp add: validateWithRiskManagement_def Let_def)
qed

lemma decide_domain_error:
  assumes "strategy ag2 md prediction = (ag4, Inr (Some d))"
    and "action d \<noteq> ''HOLD''"
    and "\<not> confidence d < minConfidenceThreshold (config ag4)"
    and "confidence d \<le> 0 \<or> 1 \<le> confidence d"
  shows "decide_and_validate L now strategy ag2 md prediction
           = (ag4, Inl (Error ''Win probability must be between 0 and 1''))"
  using assms(1,2) validate_domain_error [OF assms(3,4)]
  by (simp add: decide_and_validate_def)

text \<open>A successful \<open>logEvent\<close> appends one entry of the given type and payload.\<close>

lemma logEvent_success:
  assumes "stringify L (canonical \<lparr>entry_type = kind, entry_agent = cfg_name (config ag),
             entry_data = payload, entry_timestamp = now\<rparr>) = Inr s"
  shows "\<exists>ag' e. logEvent L now ag kind payload = (ag', Inr ())
           \<and> entries (auditLogger ag') = entries (auditLogger ag) @ [e]
           \<and> entry_type e = kind \<and> entry_data e = payload"
proof -
  define entry where "entry = \<lparr>entry_type = kind, entry_agent = cfg_name (config ag),
             entry_data = payload, entry_timestamp = now\<rparr>"
  have "canonical (AuditEntryBase.extend
            (entry\<lparr>entry_timestamp :=
                      (if entry_timestamp entry \<noteq> 0 then entry_timestamp entry else now)\<rparr>)
            (AuditEntry.fields None None)) = canonical entry"
    by (simp add: canonical_def entry_def AuditEntryBase.defs)
  then obtain a' stored where l: "log L now (auditLogger ag) entry = (a', Inr stored)"
    using assms by (simp add: log_def generateHash_def Let_def entry_def[symmetric])
  from log_Inr [OF l] have "entries a' = entries (auditLogger ag) @ [stored]"
    "entry_type stored = kind" "entry_data stored = payload"
    by (auto simp add: entry_def)
  moreover have "logEvent L now ag kind payload = (ag\<lparr>auditLogger := a'\<rparr>, Inr ())"
    using l by (simp add: logEvent_def entry_def)
  ultimately show ?thesis by simp
qed

text \<open>The \<open>catch\<close> of \<open>processMarketData\<close>.\<close>

lemma processMarketData_catch:
  assumes "isRunning ag" "tradingEnabled (config ag)"
    and "processMarketData_try L now strategy ag md prediction = (ag', Inl err)"
    and "stringify L (canonical \<lparr>entry_type = ''ERROR'', entry_agent = cfg_name (config ag'),
           entry_data = JObj [(''error'', JStr (error_message err))], entry_timestamp = now\<rparr>)
         = Inr s"
  shows "\<exists>ag'' e. processMarketData L now strategy ag md prediction = (ag'', Inr None)
           \<and> entries (auditLogger ag'') = entries (auditLogger ag') @ [e]
           \<and> entry_type e = ''ERROR''
           \<and> entry_data e = JObj [(''error'', JStr (error_message err))]"
proof -
  from logEvent_success [OF assms(4)] obtain ag'' e where
    "logEvent L now ag' ''ERROR'' (JObj [(''error'', JStr (error_message err))]) = (ag'', Inr ())"
    "entries (auditLogger ag'') = entries (auditLogger ag') @ [e]"
    "entry_type e = ''ERROR''" "entry_data e = JObj [(''error'', JStr (error_message err))]"
    by blast
  then show ?thesis
    using assms(1-3) by (simp add: processMarketData_def)
qed

text \<open>
  C1.  The claim is that every abort of \<open>processMarketData\<close> is written to the audit
  ledger.  Two aborts are not.  When the gates of drawdown, oracle health and manipulation
  let the call through and the strategy proposes nothing or \<open>HOLD\<close>, the call returns null
  and the agent it leaves is the one the strategy left: the pipeline has logged nothing.
  The same holds when the strategy proposes a trade whose confidence passes the threshold
  but whose edge is not positive, so that the position size is zero.
\<close>

theorem unlogged_aborts:
  assumes run: "isRunning ag" "tradingEnabled (config ag)"
    and dd: "updateValue now (drawdownProtector ag) (totalValue (portfolio ag)) = (protector, st)"
            "canTrade st"
    and oh: "healthy (checkHealth L (oracleMonitor ag))"
    and cm: "checkForManipulation L now (ag\<lparr>drawdownProtector := protector\<rparr>) md
               = (ag2, None, blockTrade)"
    and sg: "strategy ag2 md prediction = (ag4, Inr proposal)"
  shows "auditLogger ag2 = auditLogger ag
     \<and> (proposal = None \<or> map_option action proposal = Some ''HOLD''
          \<longrightarrow> processMarketData L now strategy ag md prediction = (ag4, Inr None))
     \<and> (\<forall>d. proposal = Some d \<and> action d \<noteq> ''HOLD''
              \<and> \<not> confidence d < minConfidenceThreshold (config ag4)
              \<and> 0 < confidence d \<and> confidence d < 1
              \<and> 1.5 * confidence d - (1 - confidence d) \<le> 0
              \<and> 0 \<le> cfg_kellyFraction (config ag4) \<and> 0 \<le> cfg_maxPositionPercent (config ag4)
          \<longrightarrow> processMarketData L now strategy ag md prediction = (ag4, Inr None))"
proof (intro conjI impI allI)
  show "auditLogger ag2 = auditLogger ag"
    using checkForManipulation_logger [OF cm] by simp
next
  assume "proposal = None \<or> map_option action proposal = Some ''HOLD''"
  then have "decide_and_validate L now strategy ag2 md prediction = (ag4, Inr None)"
    using sg by (auto simp add: decide_and_validate_def)
  then show "processMarketData L now strategy ag md prediction = (ag4, Inr None)"
    using run try_after_gates [OF dd oh cm] by (simp add: processMarketData_def)
next
  fix d
  assume a: "proposal = Some d \<and> action d \<noteq> ''HOLD''
              \<and> \<not> confidence d < minConfidenceThreshold (config ag4)
              \<and> 0 < confidence d \<and> confidence d < 1
              \<and> 1.5 * confidence d - (1 - confidence d) \<le> 0
              \<and> 0 \<le> cfg_kellyFraction (config ag4) \<and> 0 \<le> cfg_maxPositionPercent (config ag4)"
  then have "validateWithRiskManagement L now ag4 d md = (ag4, Inr None)"
    by (intro validate_zero_size) simp_all
  then have "decide_and_validate L now strategy ag2 md prediction = (ag4, Inr None)"
    using sg a by (simp add: decide_and_validate_def)
  then show "processMarketData L now strategy ag md prediction = (ag4, Inr None)"
    using run try_after_gates [OF dd oh cm] by (simp add: processMarketData_def)
qed

text \<open>
  C8, as the code has it.  A domain error of the sizing step does not reach the caller of
  \<open>processMarketData\<close>.  When the gates let the call through and the strategy proposes a
  trade whose confidence passes the threshold but lies outside the open interval (0,1),
  for instance exactly 1.0, \<open>calculateKellyCriterion\<close> throws, the \<open>catch\<close> of
  \<open>processMarketData\<close> appends an \<open>ERROR\<close> entry carrying the message to the audit ledger,
  and the call returns null.
\<close>

theorem sizing_error_is_caught:
  assumes run: "isRunning ag" "tradingEnabled (config ag)"
    and dd: "updateValue now (drawdownProtector ag) (totalValue (portfolio ag)) = (protector, st)"
            "canTrade st"
    and oh: "healthy (checkHealth L (oracleMonitor ag))"
    and cm: "checkForManipulation L now (ag\<lparr>drawdownProtector := protector\<rparr>) md
               = (ag2, None, blockTrade)"
    and sg: "strategy ag2 md prediction = (ag4, Inr (Some d))"
    and act: "action d \<noteq> ''HOLD''"
    and conf: "\<not> confidence d < minConfidenceThreshold (config ag4)"
              "confidence d \<le> 0 \<or> 1 \<le> confidence d"
    and ser: "stringify L (canonical
                \<lparr>entry_type = ''ERROR'', entry_agent = cfg_name (config ag4),
                 entry_data = JObj [(''error'', JStr ''Win probability must be between 0 and 1'')],
                 entry_timestamp = now\<rparr>) = Inr s"
  shows "snd (validateWithRiskManagement L now ag4 d md)
           = Inl (Error ''Win probability must be between 0 and 1'')
     \<and> (\<exists>ag5 e. processMarketData L now strategy ag md prediction = (ag5, Inr None)
           \<and> entries (auditLogger ag5) = entries (auditLogger ag4) @ [e]
           \<and> entry_type e = ''ERROR''
           \<and> entry_data e = JObj [(''error'', JStr ''Win probability must be between 0 and 1'')])"
proof
  show "snd (validateWithRiskManagement L now ag4 d md)
           = Inl (Error ''Win probability must be between 0 and 1'')"
    using validate_domain_error [OF conf] by simp
  have "processMarketData_try L now strategy ag md prediction
          = (ag4, Inl (Error ''Win probability must be between 0 and 1''))"
    using try_after_gates [OF dd oh cm] decide_domain_error [of strategy, OF sg act conf] by simp
  from processMarketData_catch [OF run this] ser
  show "\<exists>ag5 e. processMarketData L now strategy ag md prediction = (ag5, Inr None)
           \<and> entries (auditLogger ag5) = entries (auditLogger ag4) @ [e]
           \<and> entry_type e = ''ERROR''
           \<and> entry_data e = JObj [(''error'', JStr ''Win probability must be between 0 and 1'')]"
    by (simp add: error_message_def)
qed

subsection \<open>The sample agents pass the first three gates\<close>

lemmas agent_defs = sample_agent_def aggressive_agent_def sample_config_def sample_market_def
  sample_oracle_def sample_logger_def fresh_status_def OracleMonitor_new_def
  WhaleDetector_new_def prediction_with_def propose_def

text \<open>The order that \<open>checkForManipulation\<close> builds for a liquidity of 1e19 has amount 1e17;
  its price impact is the double nearest to \<open>1/101\<close>, below the threshold.\<close>

lemma sample_check:
  assumes "whaleDetector ag = WhaleDetector_new 1000000000000000000 None None"
    and "liquidity md = 10000000000000000000"
  shows "fst (snd (checkForManipulation L now ag md)) = None"
proof -
  define dummyOrder where "dummyOrder =
            \<lparr>order_id = ''check'', order_marketId = md_marketId md,
             order_trader = address (wallet ag), order_side = ''BUY'',
             order_amount = bigint_div (liquidity md) 100, order_price = md_currentPrice md,
             order_timestamp = now, order_blockNumber = 0\<rparr>"
  have "snd (analyzeOrder L now (whaleDetector ag) dummyOrder (liquidity md)) = None"
    by (subst analyzeOrder_below)
       (simp_all add: assms dummyOrder_def bigint_div_def WhaleDetector_new_def
          impact_1e17_1e19 nearest_1_50)
  then show ?thesis
    by (cases "analyzeOrder L now (whaleDetector ag) dummyOrder (liquidity md)")
       (simp add: checkForManipulation_def Let_def dummyOrder_def [symmetric])
qed

lemma sample_gates:
  "isRunning sample_agent \<and> tradingEnabled (config sample_agent)
   \<and> canTrade (snd (updateValue 1000 (drawdownProtector sample_agent)
                        (totalValue (portfolio sample_agent))))
   \<and> healthy (checkHealth L (oracleMonitor sample_agent))
   \<and> fst (snd (checkForManipulation L 1000 (sample_agent\<lparr>drawdownProtector := p\<rparr>)
                  sample_market)) = None"
proof -
  have "fst (snd (checkForManipulation L 1000 (sample_agent\<lparr>drawdownProtector := p\<rparr>)
                  sample_market)) = None"
    by (rule sample_check) (simp_all add: sample_agent_def sample_market_def)
  then show ?thesis
    by (simp add: agent_defs drawdown_defs checkHealth_def source_issues_def)
qed

lemma aggressive_gates:
  "isRunning aggressive_agent \<and> tradingEnabled (config aggressive_agent)
   \<and> canTrade (snd (updateValue 1000 (drawdownProtector aggressive_agent)
                        (totalValue (portfolio aggressive_agent))))
   \<and> healthy (checkHealth L (oracleMonitor aggressive_agent))
   \<and> fst (snd (checkForManipulation L 1000 (aggressive_agent\<lparr>drawdownProtector := p\<rparr>)
                  sample_market)) = None"
proof -
  have "fst (snd (checkForManipulation L 1000 (aggressive_agent\<lparr>drawdownProtector := p\<rparr>)
                  sample_market)) = None"
    by (rule sample_check)
       (simp_all add: aggressive_agent_def sample_agent_def sample_market_def)
  then show ?thesis
    by (simp add: agent_defs drawdown_defs checkHealth_def source_issues_def)
qed

lemma triple_eq: "fst (snd x) = None \<Longrightarrow> x = (fst x, None, snd (snd x))"
  by (cases x) auto

theorem unlogged_aborts_witness:
  "isRunning sample_agent \<and> tradingEnabled (config sample_agent)
   \<and> snd (processMarketData sample_library 1000 (propose ''HOLD'') sample_agent sample_market
            (prediction_with 0.9)) = Inr None
   \<and> entries (auditLogger (fst (processMarketData sample_library 1000 (propose ''HOLD'')
        sample_agent sample_market (prediction_with 0.9)))) = []
   \<and> snd (processMarketData sample_library 1000 (propose ''BUY'') aggressive_agent sample_market
            (prediction_with 0.35)) = Inr None
   \<and> entries (auditLogger (fst (processMarketData sample_library 1000 (propose ''BUY'')
        aggressive_agent sample_market (prediction_with 0.35)))) = []"
proof -
  let ?L = sample_library
  define p where "p = fst (updateValue 1000 (drawdownProtector sample_agent)
                        (totalValue (portfolio sample_agent)))"
  define ag2 where
    "ag2 = fst (checkForManipulation ?L 1000 (sample_agent\<lparr>drawdownProtector := p\<rparr>) sample_market)"
  define q where "q = fst (updateValue 1000 (drawdownProtector aggressive_agent)
                        (totalValue (portfolio aggressive_agent)))"
  define bg2 where
    "bg2 = fst (checkForManipulation ?L 1000 (aggressive_agent\<lparr>drawdownProtector := q\<rparr>) sample_market)"
  note g = sample_gates [of ?L p] and h = aggressive_gates [of ?L q]
  have dd: "updateValue 1000 (drawdownProtector sample_agent) (totalValue (portfolio sample_agent))
              = (p, snd (updateValue 1000 (drawdownProtector sample_agent)
                        (totalValue (portfolio sample_agent))))"
    by (simp add: p_def)
  have cm: "checkForManipulation ?L 1000 (sample_agent\<lparr>drawdownProtector := p\<rparr>) sample_market
              = (ag2, None, snd (snd (checkForManipulation ?L 1000
                   (sample_agent\<lparr>drawdownProtector := p\<rparr>) sample_market)))"
    unfolding ag2_def using g by (intro triple_eq) simp
  have sg: "propose ''HOLD'' ag2 sample_market (prediction_with 0.9)
              = (ag2, Inr (Some \<lparr>action = ''HOLD'', amount = 0, marketId = ''MARKET1'',
                   decision_reason = ''signal'', confidence = 0.9\<rparr>))"
    by (simp add: propose_def sample_market_def prediction_with_def)
  have dd': "updateValue 1000 (drawdownProtector aggressive_agent)
               (totalValue (portfolio aggressive_agent))
              = (q, snd (updateValue 1000 (drawdownProtector aggressive_agent)
                        (totalValue (portfolio aggressive_agent))))"
    by (simp add: q_def)
  have cm': "checkForManipulation ?L 1000 (aggressive_agent\<lparr>drawdownProtector := q\<rparr>) sample_market
              = (bg2, None, snd (snd (checkForManipulation ?L 1000
                   (aggressive_agent\<lparr>drawdownProtector := q\<rparr>) sample_market)))"
    unfolding bg2_def using h by (intro triple_eq) simp
  have sg': "propose ''BUY'' bg2 sample_market (prediction_with 0.35)
              = (bg2, Inr (Some \<lparr>action = ''BUY'', amount = 0, marketId = ''MARKET1'',
                   decision_reason = ''signal'', confidence = 0.35\<rparr>))"
    by (simp add: propose_def sample_market_def prediction_with_def)
  have c': "config bg2 = config aggressive_agent"
    using checkForManipulation_config [OF cm'] by simp
  have e: "entries (auditLogger sample_agent) = []" "entries (auditLogger aggressive_agent) = []"
    by (simp_all add: agent_defs)
  from unlogged_aborts [of sample_agent 1000 p _ ?L sample_market ag2 _ "propose ''HOLD''", OF _ _ dd _ _ cm sg]
    g
  have 1: "processMarketData ?L 1000 (propose ''HOLD'') sample_agent sample_market
             (prediction_with 0.9) = (ag2, Inr None)"
    and 2: "auditLogger ag2 = auditLogger sample_agent"
    by simp_all
  from unlogged_aborts [of aggressive_agent 1000 q _ ?L sample_market bg2 _ "propose ''BUY''", OF _ _ dd' _ _ cm' sg']
    h c'
  have 3: "processMarketData ?L 1000 (propose ''BUY'') aggressive_agent sample_market
             (prediction_with 0.35) = (bg2, Inr None)"
    and 4: "auditLogger bg2 = auditLogger aggressive_agent"
    by (simp_all add: agent_defs)
  show ?thesis using g 1 2 3 4 e by simp
qed

lemma sample_error_entry_serialises:
  "cfg_name (config ag) = ''ConservativeBot'' \<Longrightarrow>
   stringify sample_library (canonical
      \<lparr>entry_type = ''ERROR'', entry_agent = cfg_name (config ag),
       entry_data = JObj [(''error'', JStr ''Win probability must be between 0 and 1'')],
       entry_timestamp = 1000\<rparr>)
   = Inr (json_text (canonical
      \<lparr>entry_type = ''ERROR'', entry_agent = ''ConservativeBot'',
       entry_data = JObj [(''error'', JStr ''Win probability must be between 0 and 1'')],
       entry_timestamp = 1000\<rparr>))"
  by (simp add: canonical_def sample_defs)

theorem sizing_error_is_caught_witness:
  "isRunning sample_agent \<and> tradingEnabled (config sample_agent)
   \<and> (\<exists>ag5 e. processMarketData sample_library 1000 (propose ''BUY'') sample_agent sample_market
                  (prediction_with 1) = (ag5, Inr None)
          \<and> entries (auditLogger ag5) = [e]
          \<and> entry_type e = ''ERROR''
          \<and> entry_data e = JObj [(''error'', JStr ''Win probability must be between 0 and 1'')])"
proof -
  let ?L = sample_library
  define p where "p = fst (updateValue 1000 (drawdownProtector sample_agent)
                        (totalValue (portfolio sample_agent)))"
  define ag2 where
    "ag2 = fst (checkForManipulation ?L 1000 (sample_agent\<lparr>drawdownProtector := p\<rparr>) sample_market)"
  define d where "d = \<lparr>action = ''BUY'', amount = 0, marketId = ''MARKET1'',
                   decision_reason = ''signal'', confidence = 1\<rparr>"
  note g = sample_gates [of ?L p]
  have run: "isRunning sample_agent" "tradingEnabled (config sample_agent)"
    and ct: "canTrade (snd (updateValue 1000 (drawdownProtector sample_agent)
                        (totalValue (portfolio sample_agent))))"
    and oh: "healthy (checkHealth ?L (oracleMonitor sample_agent))"
    using g by simp_all
  have dd: "updateValue 1000 (drawdownProtector sample_agent) (totalValue (portfolio sample_agent))
              = (p, snd (updateValue 1000 (drawdownProtector sample_agent)
                        (totalValue (portfolio sample_agent))))"
    by (simp add: p_def)
  have cm: "checkForManipulation ?L 1000 (sample_agent\<lparr>drawdownProtector := p\<rparr>) sample_market
              = (ag2, None, snd (snd (checkForManipulation ?L 1000
                   (sample_agent\<lparr>drawdownProtector := p\<rparr>) sample_market)))"
    unfolding ag2_def using g by (intro triple_eq) simp
  have sg: "propose ''BUY'' ag2 sample_market (prediction_with 1) = (ag2, Inr (Some d))"
    by (simp add: propose_def sample_market_def prediction_with_def d_def)
  have c: "config ag2 = sample_config"
    using checkForManipulation_config [OF cm] by (simp add: sample_agent_def)
  have l: "auditLogger ag2 = sample_logger"
    using checkForManipulation_logger [OF cm] by (simp add: sample_agent_def)
  have act: "action d \<noteq> ''HOLD''" by (simp add: d_def)
  have conf: "\<not> confidence d < minConfidenceThreshold (config ag2)"
    "confidence d \<le> 0 \<or> 1 \<le> confidence d"
    by (simp_all add: c d_def sample_config_def)
  have ser: "stringify ?L (canonical
      \<lparr>entry_type = ''ERROR'', entry_agent = cfg_name (config ag2),
       entry_data = JObj [(''error'', JStr ''Win probability must be between 0 and 1'')],
       entry_timestamp = 1000\<rparr>)
   = Inr (json_text (canonical
      \<lparr>entry_type = ''ERROR'', entry_agent = ''ConservativeBot'',
       entry_data = JObj [(''error'', JStr ''Win probability must be between 0 and 1'')],
       entry_timestamp = 1000\<rparr>))"
    by (rule sample_error_entry_serialises) (simp add: c sample_config_def)
  from sizing_error_is_caught [of sample_agent 1000 p _ ?L sample_market ag2 _ "propose ''BUY''",
      OF run dd ct oh cm sg act conf ser]
  show ?thesis using run by (simp add: l sample_logger_def)
qed

text \<open>
  C8 as stated fails: with a proposal of confidence exactly 1.0 the sizing step throws the
  domain error, and the call returns null with one \<open>ERROR\<close> entry in the ledger; the error
  does not reach the caller.
\<close>

theorem sizing_error_propagates_counterexample:
  "snd (validateWithRiskManagement sample_library 1000 sample_agent
          \<lparr>action = ''BUY'', amount = 0, marketId = ''MARKET1'', decision_reason = ''signal'',
           confidence = 1\<rparr> sample_market)
     = Inl (Error ''Win probability must be between 0 and 1'')
   \<and> snd (processMarketData sample_library 1000 (propose ''BUY'') sample_agent sample_market
            (prediction_with 1)) = Inr None
   \<and> map entry_type (entries (auditLogger (fst (processMarketData sample_library 1000
        (propose ''BUY'') sample_agent sample_market (prediction_with 1))))) = [''ERROR'']"
proof -
  let ?L = sample_library
  define p where "p = fst (updateValue 1000 (drawdownProtector sample_agent)
                        (totalValue (portfolio sample_agent)))"
  define ag2 where
    "ag2 = fst (checkForManipulation ?L 1000 (sample_agent\<lparr>drawdownProtector := p\<rparr>) sample_market)"
  define d where "d = \<lparr>action = ''BUY'', amount = 0, marketId = ''MARKET1'',
                   decision_reason = ''signal'', confidence = 1\<rparr>"
  note g = sample_gates [of ?L p]
  have run: "isRunning sample_agent" "tradingEnabled (config sample_agent)"
    and ct: "canTrade (snd (updateValue 1000 (drawdownProtector sample_agent)
                        (totalValue (portfolio sample_agent))))"
    and oh: "healthy (checkHealth ?L (oracleMonitor sample_agent))"
    using g by simp_all
  have dd: "updateValue 1000 (drawdownProtector sample_agent) (totalValue (portfolio sample_agent))
              = (p, snd (updateValue 1000 (drawdownProtector sample_agent)
                        (totalValue (portfolio sample_agent))))"
    by (simp add: p_def)
  have cm: "checkForManipulation ?L 1000 (sample_agent\<lparr>drawdownProtector := p\<rparr>) sample_market
              = (ag2, None, snd (snd (checkForManipulation ?L 1000
                   (sample_agent\<lparr>drawdownProtector := p\<rparr>) sample_market)))"
    unfolding ag2_def using g by (intro triple_eq) simp
  have sg: "propose ''BUY'' ag2 sample_market (prediction_with 1) = (ag2, Inr (Some d))"
    by (simp add: propose_def sample_market_def prediction_with_def d_def)
  have c: "config ag2 = sample_config"
    using checkForManipulation_config [OF cm] by (simp add: sample_agent_def)
  have l: "auditLogger ag2 = sample_logger"
    using checkForManipulation_logger [OF cm] by (simp add: sample_agent_def)
  have act: "action d \<noteq> ''HOLD''" by (simp add: d_def)
  have conf: "\<not> confidence d < minConfidenceThreshold (config ag2)"
    "confidence d \<le> 0 \<or> 1 \<le> confidence d"
    by (simp_all add: c d_def sample_config_def)
  have conf0: "\<not> confidence d < minConfidenceThreshold (config sample_agent)"
    by (simp add: d_def sample_agent_def sample_config_def)
  have v: "snd (validateWithRiskManagement ?L 1000 sample_agent d sample_market)
             = Inl (Error ''Win probability must be between 0 and 1'')"
    using validate_domain_error [OF conf0 conf(2)] by simp
  have t: "processMarketData_try ?L 1000 (propose ''BUY'') sample_agent sample_market
             (prediction_with 1) = (ag2, Inl (Error ''Win probability must be between 0 and 1''))"
    using try_after_gates [OF dd ct oh cm]
      decide_domain_error [of "propose ''BUY''", OF sg act conf] by simp
  have ser: "stringify ?L (canonical
      \<lparr>entry_type = ''ERROR'', entry_agent = cfg_name (config ag2),
       entry_data = JObj [(''error'', JStr (error_message
                     (Error ''Win probability must be between 0 and 1'')))],
       entry_timestamp = 1000\<rparr>)
   = Inr (json_text (canonical
      \<lparr>entry_type = ''ERROR'', entry_agent = ''ConservativeBot'',
       entry_data = JObj [(''error'', JStr ''Win probability must be between 0 and 1'')],
       entry_timestamp = 1000\<rparr>))"
    using sample_error_entry_serialises [of ag2]
    by (simp add: c sample_config_def error_message_def)
  from processMarketData_catch [OF run t ser] obtain ag5 e where
    "processMarketData ?L 1000 (propose ''BUY'') sample_agent sample_market (prediction_with 1)
       = (ag5, Inr None)"
    "entries (auditLogger ag5) = entries (auditLogger ag2) @ [e]" "entry_type e = ''ERROR''"
    by blast
  then show ?thesis using v by (simp add: l sample_logger_def d_def)
qed

end
